theory Spec2Isabelle
  imports Main
begin

section \<open>JavaScript values used by the client\<close>

text \<open>
  Strings are byte strings: a JavaScript string is represented by its UTF-8 encoding,
  which is also what the URL encoding below works on.  A JavaScript number that holds
  the result of \<open>parseInt\<close> is \<open>NaN\<close> or an integer; integers are exact in
  JavaScript up to \<open>2^53 - 1\<close> in magnitude, and the model is meant for that range.
\<close>

datatype number = NaN | Num int

definition safe_integer :: "number \<Rightarrow> bool" where
  "safe_integer x = (case x of NaN \<Rightarrow> False | Num n \<Rightarrow> \<bar>n\<bar> \<le> 2 ^ 53 - 1)"

text \<open>\<open>x || d\<close> for a value \<open>x\<close> that is a string or \<open>null\<close>.\<close>

definition or_default :: "string option \<Rightarrow> string \<Rightarrow> string" where
  "or_default x d = (case x of None \<Rightarrow> d | Some v \<Rightarrow> if v = [] then d else v)"

text \<open>\<open>String.prototype.split\<close> with a one-character separator, and \<open>Array.prototype.join\<close>.\<close>

fun String_split :: "char \<Rightarrow> string \<Rightarrow> string list" where
  "String_split sep [] = [[]]"
| "String_split sep (c # cs) =
     (if c = sep then [] # String_split sep cs
      else (case String_split sep cs of t # ts \<Rightarrow> (c # t) # ts | [] \<Rightarrow> [[c]]))"

fun Array_join :: "string \<Rightarrow> string list \<Rightarrow> string" where
  "Array_join sep [] = []"
| "Array_join sep [x] = x"
| "Array_join sep (x # y # ys) = x @ sep @ Array_join sep (y # ys)"

text \<open>\<open>filter(Boolean)\<close> on an array of strings keeps the non-empty ones.\<close>

definition Boolean :: "string \<Rightarrow> bool" where
  "Boolean v \<longleftrightarrow> v \<noteq> []"

subsection \<open>parseInt and Number.prototype.toString\<close>

definition is_whitespace :: "char \<Rightarrow> bool" where
  "is_whitespace c \<longleftrightarrow> c \<in> set [CHR 0x09, CHR 0x0A, CHR 0x0B, CHR 0x0C, CHR 0x0D, CHR '' '']"

fun index_of :: "'a \<Rightarrow> 'a list \<Rightarrow> nat option" where
  "index_of x [] = None"
| "index_of x (y # ys) = (if x = y then Some 0 else map_option Suc (index_of x ys))"

text \<open>The value of a digit in radix \<open>R\<close>, letters in either case.\<close>

definition digit_value :: "nat \<Rightarrow> char \<Rightarrow> nat option" where
  "digit_value R c =
     (case (case index_of c ''0123456789abcdefghijklmnopqrstuvwxyz'' of
              Some d \<Rightarrow> Some d
            | None \<Rightarrow> map_option (\<lambda>d. d + 10) (index_of c ''ABCDEFGHIJKLMNOPQRSTUVWXYZ'')) of
        Some d \<Rightarrow> if d < R then Some d else None
      | None \<Rightarrow> None)"

text \<open>
  \<open>parseInt(string)\<close> without a radix: leading white space is skipped, a sign is read, a
  \<open>0x\<close> prefix selects radix 16, and the longest prefix of digits is the value; no digit
  gives \<open>NaN\<close>.  White space is the ASCII white space; the spaces of Unicode beyond
  ASCII, which take several bytes here, are not skipped.
\<close>

definition parseInt :: "string \<Rightarrow> number" where
  "parseInt string =
     (let S = dropWhile is_whitespace string;
          sign = (if take 1 S = ''-'' then - 1 else 1);
          S = (if take 1 S = ''-'' \<or> take 1 S = ''+'' then drop 1 S else S);
          R = (if take 2 S = ''0x'' \<or> take 2 S = ''0X'' then 16 else 10);
          S = (if R = 16 then drop 2 S else S);
          Z = takeWhile (\<lambda>c. digit_value R c \<noteq> None) S
      in if Z = [] then NaN
         else Num (sign * int (foldl (\<lambda>a c. a * R + the (digit_value R c)) 0 Z)))"

function decimal :: "nat \<Rightarrow> string" where
  "decimal n =
     (if n < 10 then [''0123456789'' ! n] else decimal (n div 10) @ [''0123456789'' ! (n mod 10)])"
  by pat_completeness auto
termination
  by (relation "measure id") auto

declare decimal.simps [simp del]

text \<open>\<open>toString()\<close> of a number that is \<open>NaN\<close> or an integer below \<open>10^21\<close> in magnitude.\<close>

definition Number_toString :: "number \<Rightarrow> string" where
  "Number_toString x =
     (case x of NaN \<Rightarrow> ''NaN''
      | Num n \<Rightarrow> if n < 0 then ''-'' @ decimal (nat (- n)) else decimal (nat n))"

subsection \<open>URLSearchParams\<close>

text \<open>
  A \<open>URLSearchParams\<close> object is its list of name-value pairs.  The constructor and
  \<open>toString\<close> follow the \<open>application/x-www-form-urlencoded\<close> parser and serialiser of
  the URL standard, on bytes.
\<close>

type_synonym URLSearchParams = "(string \<times> string) list"

fun percent_decode :: "string \<Rightarrow> string" where
  "percent_decode [] = []"
| "percent_decode (c # cs) =
     (if c = CHR ''%'' then
        (case cs of
           h1 # h2 # rest \<Rightarrow>
             (case (digit_value 16 h1, digit_value 16 h2) of
                (Some a, Some b) \<Rightarrow> char_of (16 * a + b) # percent_decode rest
              | _ \<Rightarrow> c # percent_decode cs)
         | _ \<Rightarrow> c # percent_decode cs)
      else c # percent_decode cs)"

definition plus_to_space :: "string \<Rightarrow> string" where
  "plus_to_space = map (\<lambda>c. if c = CHR ''+'' then CHR '' '' else c)"

definition parse_pair :: "string \<Rightarrow> string \<times> string" where
  "parse_pair bytes =
     (let name = takeWhile (\<lambda>c. c \<noteq> CHR ''='') bytes;
          val = drop 1 (dropWhile (\<lambda>c. c \<noteq> CHR ''='') bytes)
      in (percent_decode (plus_to_space name), percent_decode (plus_to_space val)))"

definition URLSearchParams_new :: "string \<Rightarrow> URLSearchParams" where
  "URLSearchParams_new init =
     (let input = (if take 1 init = ''?'' then drop 1 init else init)
      in map parse_pair (filter (\<lambda>bytes. bytes \<noteq> []) (String_split CHR ''&'' input)))"

definition URLSearchParams_get :: "URLSearchParams \<Rightarrow> string \<Rightarrow> string option" where
  "URLSearchParams_get params name = map_of params name"

definition URLSearchParams_has :: "URLSearchParams \<Rightarrow> string \<Rightarrow> bool" where
  "URLSearchParams_has params name \<longleftrightarrow> name \<in> set (map fst params)"

definition URLSearchParams_append :: "URLSearchParams \<Rightarrow> string \<Rightarrow> string \<Rightarrow> URLSearchParams" where
  "URLSearchParams_append params name val = params @ [(name, val)]"

definition unreserved :: "char \<Rightarrow> bool" where
  "unreserved c \<longleftrightarrow>
     c \<in> set ''*-._0123456789ABCDEFGHIJKLMNOPQRSTUVWXYZabcdefghijklmnopqrstuvwxyz''"

definition serialize_byte :: "char \<Rightarrow> string" where
  "serialize_byte c =
     (if c = CHR '' '' then ''+''
      else if unreserved c then [c]
      else [CHR ''%'', ''0123456789ABCDEF'' ! (of_char c div 16),
            ''0123456789ABCDEF'' ! (of_char c mod 16)])"

definition serialize_bytes :: "string \<Rightarrow> string" where
  "serialize_bytes s = concat (map serialize_byte s)"

definition serialize_pair :: "string \<times> string \<Rightarrow> string" where
  "serialize_pair p = serialize_bytes (fst p) @ ''='' @ serialize_bytes (snd p)"

definition URLSearchParams_toString :: "URLSearchParams \<Rightarrow> string" where
  "URLSearchParams_toString params = Array_join ''&'' (map serialize_pair params)"

section \<open>Filter state of the home page (client/src/pages/home-page.tsx)\<close>

record FilterState =
  searchQuery :: string
  cultures :: "string list"
  materials :: "string list"
  dateRange :: "number \<times> number"
  has3dModel :: bool
  sortOption :: string
  currentPage :: number

text \<open>\<open>params.get(name)?.split(",").filter(Boolean) || []\<close>\<close>

definition facet_param :: "URLSearchParams \<Rightarrow> string \<Rightarrow> string list" where
  "facet_param params name =
     (case URLSearchParams_get params name of
        None \<Rightarrow> []
      | Some v \<Rightarrow> filter Boolean (String_split CHR '','' v))"

text \<open>The initial values of the state hooks, read from the search part of the URL.\<close>

definition HomePage_state :: "string \<Rightarrow> FilterState" where
  "HomePage_state search =
     (let params = URLSearchParams_new search in
      \<lparr> searchQuery = or_default (URLSearchParams_get params ''query'') [],
        cultures = facet_param params ''cultures'',
        materials = facet_param params ''materials'',
        dateRange =
          (parseInt (or_default (URLSearchParams_get params ''dateStart'') ''-3000''),
           parseInt (or_default (URLSearchParams_get params ''dateEnd'') ''2000'')),
        has3dModel = (URLSearchParams_get params ''has3dModel'' = Some ''true''),
        sortOption = or_default (URLSearchParams_get params ''sort'') ''relevance'',
        currentPage = parseInt (or_default (URLSearchParams_get params ''page'') ''1'') \<rparr>)"

definition buildQueryString :: "FilterState \<Rightarrow> string" where
  "buildQueryString s =
     (let queryParams = [];
          queryParams = (if searchQuery s \<noteq> []
            then URLSearchParams_append queryParams ''query'' (searchQuery s) else queryParams);
          queryParams = (if length (cultures s) > 0
            then URLSearchParams_append queryParams ''cultures'' (Array_join '','' (cultures s))
            else queryParams);
          queryParams = (if length (materials s) > 0
            then URLSearchParams_append queryParams ''materials'' (Array_join '','' (materials s))
            else queryParams);
          queryParams = (if fst (dateRange s) \<noteq> Num (- 3000)
            then URLSearchParams_append queryParams ''dateStart'' (Number_toString (fst (dateRange s)))
            else queryParams);
          queryParams = (if snd (dateRange s) \<noteq> Num 2000
            then URLSearchParams_append queryParams ''dateEnd'' (Number_toString (snd (dateRange s)))
            else queryParams);
          queryParams = (if has3dModel s
            then URLSearchParams_append queryParams ''has3dModel'' ''true'' else queryParams);
          queryParams = (if sortOption s \<noteq> ''relevance''
            then URLSearchParams_append queryParams ''sort'' (sortOption s) else queryParams);
          queryParams = (if currentPage s \<noteq> Num 1
            then URLSearchParams_append queryParams ''page'' (Number_toString (currentPage s))
            else queryParams)
      in URLSearchParams_toString queryParams)"

subsection \<open>Transitions offered by the controls\<close>

text \<open>\<open>toggleCulture\<close> and \<open>toggleMaterial\<close> of the filter sidebar, on the array they edit.\<close>

definition toggle :: "string list \<Rightarrow> string \<Rightarrow> string list" where
  "toggle selected v = (if v \<in> set selected then filter (\<lambda>c. c \<noteq> v) selected else selected @ [v])"

definition resetFilters :: "FilterState \<Rightarrow> FilterState" where
  "resetFilters s =
     s\<lparr> searchQuery := [], cultures := [], materials := [],
        dateRange := (Num (- 3000), Num 2000), has3dModel := False,
        sortOption := ''relevance'', currentPage := Num 1 \<rparr>"

definition applyFilters :: "FilterState \<Rightarrow> FilterState" where
  "applyFilters s = s\<lparr> currentPage := Num 1 \<rparr>"

definition removeFilter :: "string \<Rightarrow> string \<Rightarrow> FilterState \<Rightarrow> FilterState" where
  "removeFilter type v s =
     (if type = ''culture'' then s\<lparr> cultures := filter (\<lambda>c. c \<noteq> v) (cultures s) \<rparr>
      else if type = ''material'' then s\<lparr> materials := filter (\<lambda>m. m \<noteq> v) (materials s) \<rparr>
      else if type = ''dateRange'' then s\<lparr> dateRange := (Num (- 3000), Num 2000) \<rparr>
      else if type = ''has3dModel'' then s\<lparr> has3dModel := False \<rparr>
      else s)"

definition handlePageChange :: "number \<Rightarrow> FilterState \<Rightarrow> FilterState" where
  "handlePageChange page s = s\<lparr> currentPage := page \<rparr>"

definition handleSliderChange :: "number \<Rightarrow> FilterState \<Rightarrow> FilterState" where
  "handleSliderChange v s = s\<lparr> dateRange := (v, snd (dateRange s)) \<rparr>"

datatype ui_event =
    ToggleCulture string
  | ToggleMaterial string
  | SliderChange int
  | Toggle3dModel
  | SortChange string
  | PageChange int
  | ApplyFilters
  | ResetFilters
  | RemoveFilter string string

fun offered :: "ui_event \<Rightarrow> bool" where
  "offered (SliderChange v) \<longleftrightarrow> - 3000 \<le> v \<and> v \<le> 2000"
| "offered (SortChange v) \<longleftrightarrow> v \<in> set [''relevance'', ''date_asc'', ''date_desc'', ''az'']"
| "offered (PageChange p) \<longleftrightarrow> safe_integer (Num p)"
| "offered _ \<longleftrightarrow> True"

fun dispatch :: "FilterState \<Rightarrow> ui_event \<Rightarrow> FilterState" where
  "dispatch s (ToggleCulture v) = s\<lparr> cultures := toggle (cultures s) v \<rparr>"
| "dispatch s (ToggleMaterial v) = s\<lparr> materials := toggle (materials s) v \<rparr>"
| "dispatch s (SliderChange v) = handleSliderChange (Num v) s"
| "dispatch s Toggle3dModel = s\<lparr> has3dModel := \<not> has3dModel s \<rparr>"
| "dispatch s (SortChange v) = s\<lparr> sortOption := v \<rparr>"
| "dispatch s (PageChange p) = handlePageChange (Num p) s"
| "dispatch s ApplyFilters = applyFilters s"
| "dispatch s ResetFilters = resetFilters s"
| "dispatch s (RemoveFilter type v) = removeFilter type v s"

text \<open>
  The states the home page can be in: the page loads from some URL and the controls send
  events.  \<open>offered\<close> says what each control can send: the slider moves between its
  \<open>min\<close> and \<open>max\<close>, the sort selector has four options, the pagination control sends
  an integer page number, and facet values come from the facet catalogue, which holds
  arbitrary strings.
\<close>

definition exact_number :: "number \<Rightarrow> bool" where
  "exact_number x \<longleftrightarrow> x = NaN \<or> safe_integer x"

definition exact_state :: "FilterState \<Rightarrow> bool" where
  "exact_state s \<longleftrightarrow>
     exact_number (fst (dateRange s)) \<and> exact_number (snd (dateRange s))
     \<and> exact_number (currentPage s)"

definition run_events :: "string \<Rightarrow> ui_event list \<Rightarrow> FilterState" where
  "run_events search evs = foldl dispatch (HomePage_state search) evs"

text \<open>A facet value survives the comma-joined parameter when it is not empty and has no comma.\<close>

definition facet_values_ok :: "string list \<Rightarrow> bool" where
  "facet_values_ok xs \<longleftrightarrow> list_all (\<lambda>x. x \<noteq> [] \<and> CHR '','' \<notin> set x) xs"


section \<open>Search parameters in the client library (client/src/lib/api.ts)\<close>

text \<open>
  \<open>Partial<ArtifactSearchParams>\<close>: every property may be absent.  A facet is a string or
  an array of strings.  Field names carry the suffix \<open>_p\<close> to keep them apart from the
  state of the home page.
\<close>

datatype string_or_array = Str string | Arr "string list"

record PartialSearchParams =
  query_p :: "string option"
  cultures_p :: "string_or_array option"
  materials_p :: "string_or_array option"
  dateStart_p :: "number option"
  dateEnd_p :: "number option"
  tags_p :: "string_or_array option"
  site_p :: "string option"
  has3dModel_p :: "bool option"
  page_p :: "number option"
  limit_p :: "number option"
  sort_p :: "string option"

definition no_params :: PartialSearchParams where
  "no_params =
     \<lparr> query_p = None, cultures_p = None, materials_p = None, dateStart_p = None,
       dateEnd_p = None, tags_p = None, site_p = None, has3dModel_p = None, page_p = None,
       limit_p = None, sort_p = None \<rparr>"

text \<open>\<open>if (x) ...\<close> for a string that may be absent: the string is there and not empty.\<close>

definition truthy_string :: "string option \<Rightarrow> bool" where
  "truthy_string x \<longleftrightarrow> (case x of None \<Rightarrow> False | Some v \<Rightarrow> v \<noteq> [])"

text \<open>
  The facet branches of \<open>buildSearchQueryString\<close>: an array is always truthy and is
  joined with commas, a string is appended when it is not empty.
\<close>

definition append_facet ::
  "URLSearchParams \<Rightarrow> string \<Rightarrow> string_or_array option \<Rightarrow> URLSearchParams" where
  "append_facet queryParams name x =
     (case x of
        None \<Rightarrow> queryParams
      | Some (Arr xs) \<Rightarrow> URLSearchParams_append queryParams name (Array_join '','' xs)
      | Some (Str v) \<Rightarrow> if v \<noteq> [] then URLSearchParams_append queryParams name v else queryParams)"

definition append_defined ::
  "URLSearchParams \<Rightarrow> string \<Rightarrow> string option \<Rightarrow> URLSearchParams" where
  "append_defined queryParams name x =
     (case x of None \<Rightarrow> queryParams | Some v \<Rightarrow> URLSearchParams_append queryParams name v)"

definition Boolean_toString :: "bool \<Rightarrow> string" where
  "Boolean_toString b = (if b then ''true'' else ''false'')"

definition buildSearchQueryString :: "PartialSearchParams \<Rightarrow> string" where
  "buildSearchQueryString params =
     (let queryParams = [];
          queryParams = (if truthy_string (query_p params)
            then URLSearchParams_append queryParams ''query'' (the (query_p params))
            else queryParams);
          queryParams = append_facet queryParams ''cultures'' (cultures_p params);
          queryParams = append_facet queryParams ''materials'' (materials_p params);
          queryParams = append_defined queryParams ''dateStart''
            (map_option Number_toString (dateStart_p params));
          queryParams = append_defined queryParams ''dateEnd''
            (map_option Number_toString (dateEnd_p params));
          queryParams = append_facet queryParams ''tags'' (tags_p params);
          queryParams = (if truthy_string (site_p params)
            then URLSearchParams_append queryParams ''site'' (the (site_p params))
            else queryParams);
          queryParams = append_defined queryParams ''has3dModel''
            (map_option Boolean_toString (has3dModel_p params));
          queryParams = append_defined queryParams ''page''
            (map_option Number_toString (page_p params));
          queryParams = append_defined queryParams ''limit''
            (map_option Number_toString (limit_p params));
          queryParams = append_defined queryParams ''sort'' (sort_p params)
      in URLSearchParams_toString queryParams)"

text \<open>\<open>x || undefined\<close> and \<open>x ? f(x) : undefined\<close> for the string \<open>x\<close> that \<open>get\<close> returns.\<close>

definition when_truthy :: "string option \<Rightarrow> (string \<Rightarrow> 'a) \<Rightarrow> 'a option" where
  "when_truthy x f = (case x of None \<Rightarrow> None | Some v \<Rightarrow> if v = [] then None else Some (f v))"

definition parseSearchParams :: "string \<Rightarrow> PartialSearchParams" where
  "parseSearchParams search =
     (let params = URLSearchParams_new search;
          result = no_params;
          result = (if URLSearchParams_has params ''query''
            then result\<lparr> query_p := when_truthy (URLSearchParams_get params ''query'') id \<rparr>
            else result);
          result = (if URLSearchParams_has params ''cultures''
            then result\<lparr> cultures_p := when_truthy (URLSearchParams_get params ''cultures'')
                   (\<lambda>cultures. Arr (String_split CHR '','' cultures)) \<rparr>
            else result);
          result = (if URLSearchParams_has params ''materials''
            then result\<lparr> materials_p := when_truthy (URLSearchParams_get params ''materials'')
                   (\<lambda>materials. Arr (String_split CHR '','' materials)) \<rparr>
            else result);
          result = (if URLSearchParams_has params ''dateStart''
            then result\<lparr> dateStart_p := when_truthy (URLSearchParams_get params ''dateStart'') parseInt \<rparr>
            else result);
          result = (if URLSearchParams_has params ''dateEnd''
            then result\<lparr> dateEnd_p := when_truthy (URLSearchParams_get params ''dateEnd'') parseInt \<rparr>
            else result);
          result = (if URLSearchParams_has params ''tags''
            then result\<lparr> tags_p := when_truthy (URLSearchParams_get params ''tags'')
                   (\<lambda>tags. Arr (String_split CHR '','' tags)) \<rparr>
            else result);
          result = (if URLSearchParams_has params ''site''
            then result\<lparr> site_p := when_truthy (URLSearchParams_get params ''site'') id \<rparr>
            else result);
          result = (if URLSearchParams_has params ''has3dModel''
            then result\<lparr> has3dModel_p := Some (URLSearchParams_get params ''has3dModel'' = Some ''true'') \<rparr>
            else result);
          result = (if URLSearchParams_has params ''page''
            then result\<lparr> page_p := when_truthy (URLSearchParams_get params ''page'') parseInt \<rparr>
            else result);
          result = (if URLSearchParams_has params ''limit''
            then result\<lparr> limit_p := when_truthy (URLSearchParams_get params ''limit'') parseInt \<rparr>
            else result);
          result = (if URLSearchParams_has params ''sort''
            then (case when_truthy (URLSearchParams_get params ''sort'') id of
                    Some v \<Rightarrow> result\<lparr> sort_p := Some v \<rparr>
                  | None \<Rightarrow> result)
            else result)
      in result)"

section \<open>Pagination control (client/src/components/pagination.tsx)\<close>

text \<open>
  The component keeps a list of page entries, each a page number or \<open>null\<close> (the
  ellipsis).  Page numbers are JavaScript numbers holding integers; they are modelled as
  \<open>int\<close>, and an entry as \<open>int option\<close> with \<open>None\<close> for \<open>null\<close>.  The property
  \<open>currentPage\<close> of the component is written \<open>current\<close>, since the home page has a
  state of that name.
\<close>

type_synonym page_entry = "int option"

text \<open>The loop \<open>for (let i = a; i <= b; i++) pageNumbers.push(i)\<close>.\<close>

function push_pages :: "int \<Rightarrow> int \<Rightarrow> page_entry list \<Rightarrow> page_entry list" where
  "push_pages i b pageNumbers =
     (if i \<le> b then push_pages (i + 1) b (pageNumbers @ [Some i]) else pageNumbers)"
  by pat_completeness auto
termination
  by (relation "measure (\<lambda>(i, b, acc). nat (b + 1 - i))") auto

declare push_pages.simps [simp del]

definition generatePages :: "int \<Rightarrow> int \<Rightarrow> page_entry list" where
  "generatePages current totalPages =
     (if totalPages \<le> 7 then push_pages 1 totalPages []
      else
        let pageNumbers = [Some 1];
            start = max 2 (current - 1);
            end' = min (totalPages - 1) (current + 1);
            end' = (if start = 2 then min (totalPages - 1) (start + 2) else end');
            start = (if end' = totalPages - 1 then max 2 (end' - 2) else start);
            pageNumbers = (if start > 2 then pageNumbers @ [None] else pageNumbers);
            pageNumbers = push_pages start end' pageNumbers;
            pageNumbers = (if end' < totalPages - 1 then pageNumbers @ [None] else pageNumbers)
        in pageNumbers @ [Some totalPages])"

text \<open>
  What the component renders once the effect has run: nothing (\<open>None\<close>) when
  \<open>totalPages \<le> 1\<close>, else the entries of \<open>generatePages\<close> between the previous and
  next buttons.
\<close>

definition Pagination :: "int \<Rightarrow> int \<Rightarrow> page_entry list option" where
  "Pagination current totalPages =
     (if totalPages \<le> 1 then None else Some (generatePages current totalPages))"

subsection \<open>The page-sequence rule in the specification's words\<close>

text \<open>The page numbers of a sequence, ellipsis markers left out.\<close>

fun numbers :: "page_entry list \<Rightarrow> int list" where
  "numbers [] = []"
| "numbers (None # ps) = numbers ps"
| "numbers (Some n # ps) = n # numbers ps"

text \<open>
  A sequence marks its gaps when it starts and ends with a number, two numbers that
  stand side by side are consecutive, and exactly one ellipsis separates two numbers
  between which pages are left out.
\<close>

fun marked_gaps :: "page_entry list \<Rightarrow> bool" where
  "marked_gaps (Some a # Some b # ps) = (b = a + 1 \<and> marked_gaps (Some b # ps))"
| "marked_gaps (Some a # None # Some b # ps) = (a + 1 < b \<and> marked_gaps (Some b # ps))"
| "marked_gaps [Some a] = True"
| "marked_gaps _ = False"



section \<open>Shared schema (shared/schema.ts)\<close>

text \<open>
  Rows of the tables \<open>artifacts\<close> and \<open>artifact_images\<close>.  A nullable column is an
  \<open>option\<close>; \<open>numeric\<close> and \<open>timestamp\<close> columns are kept as text.  Column names carry
  a prefix, since \<open>id\<close> and others are taken.
\<close>

record Artifact =
  a_id :: int
  a_title :: string
  a_description :: string
  a_culture :: "string option"
  a_period :: "string option"
  a_date_start :: "int option"
  a_date_end :: "int option"
  a_materials :: "string list option"
  a_dimensions :: "string option"
  a_provenance :: "string option"
  a_id_number :: string
  a_findspot_lat :: "string option"
  a_findspot_lng :: "string option"
  a_site :: "string option"
  a_has_3d_model :: "bool option"
  a_model_url :: "string option"
  a_model_type :: "string option"
  a_created_at :: "string option"

record ArtifactImage =
  i_id :: int
  i_artifact_id :: int
  i_url :: string
  i_caption :: "string option"
  i_is_primary :: "bool option"
  i_sort_order :: "int option"

text \<open>\<open>artifactESSchema\<close>: the documents of the search index.\<close>

record ArtifactES =
  es_id :: int
  es_title :: string
  es_description :: string
  es_culture :: "string option"
  es_period :: "string option"
  es_date_start :: "int option"
  es_date_end :: "int option"
  es_materials :: "string list option"
  es_id_number :: string
  es_image_urls :: "string list option"
  es_primary_image_url :: "string option"
  es_has_3d_model :: "bool option"
  es_model_url :: "string option"
  es_model_type :: "string option"
  es_tags :: "string list option"
  es_location :: "(string option \<times> string option) option"
  es_site :: "string option"

datatype sort_mode = relevance | date_asc | date_desc | az

text \<open>
  \<open>ArtifactSearchParams\<close>, the output type of \<open>artifactSearchParamsSchema\<close>: \<open>page\<close>,
  \<open>limit\<close> and \<open>sort\<close> have defaults and are always there, and a validated number is not
  \<open>NaN\<close>.  Field names carry the suffix \<open>_v\<close>.
\<close>

record ArtifactSearchParams =
  query_v :: "string option"
  cultures_v :: "string_or_array option"
  materials_v :: "string_or_array option"
  dateStart_v :: "int option"
  dateEnd_v :: "int option"
  tags_v :: "string_or_array option"
  site_v :: "string option"
  has3dModel_v :: "bool option"
  page_v :: int
  limit_v :: int
  sort_v :: sort_mode

subsection \<open>Validation by the schema\<close>

text \<open>
  A value of \<open>req.query\<close>, as the query-string parser of the web framework delivers it: a
  string, an array of strings (a repeated parameter), or a nested object.
\<close>

datatype qvalue = QString string | QArray "string list" | QObject

type_synonym ParsedQs = "string \<Rightarrow> qvalue option"

text \<open>The object literal the route hands to \<open>artifactSearchParamsSchema.parse\<close>.\<close>

record search_input =
  query_i :: "qvalue option"
  cultures_i :: "qvalue option"
  materials_i :: "qvalue option"
  dateStart_i :: "number option"
  dateEnd_i :: "number option"
  tags_i :: "qvalue option"
  site_i :: "qvalue option"
  has3dModel_i :: bool
  page_i :: number
  limit_i :: number
  sort_i :: qvalue

record ZodIssue =
  code :: string
  path :: "string list"

definition issue :: "string \<Rightarrow> string \<Rightarrow> ZodIssue" where
  "issue c field = \<lparr> code = c, path = [field] \<rparr>"

text \<open>\<open>z.string().optional()\<close>\<close>

definition z_string_optional :: "string \<Rightarrow> qvalue option \<Rightarrow> ZodIssue + string option" where
  "z_string_optional field x =
     (case x of
        None \<Rightarrow> Inr None
      | Some (QString s) \<Rightarrow> Inr (Some s)
      | Some _ \<Rightarrow> Inl (issue ''invalid_type'' field))"

text \<open>\<open>z.array(z.string()).or(z.string()).optional()\<close>\<close>

definition z_facet_optional ::
  "string \<Rightarrow> qvalue option \<Rightarrow> ZodIssue + string_or_array option" where
  "z_facet_optional field x =
     (case x of
        None \<Rightarrow> Inr None
      | Some (QArray xs) \<Rightarrow> Inr (Some (Arr xs))
      | Some (QString s) \<Rightarrow> Inr (Some (Str s))
      | Some QObject \<Rightarrow> Inl (issue ''invalid_union'' field))"

text \<open>\<open>z.number().optional()\<close>: \<open>NaN\<close> is not accepted as a number.\<close>

definition z_number_optional :: "string \<Rightarrow> number option \<Rightarrow> ZodIssue + int option" where
  "z_number_optional field x =
     (case x of
        None \<Rightarrow> Inr None
      | Some NaN \<Rightarrow> Inl (issue ''invalid_type'' field)
      | Some (Num n) \<Rightarrow> Inr (Some n))"

text \<open>\<open>z.number().optional().default(d)\<close> on a value that is given.\<close>

definition z_number_default :: "string \<Rightarrow> number \<Rightarrow> ZodIssue + int" where
  "z_number_default field x =
     (case x of NaN \<Rightarrow> Inl (issue ''invalid_type'' field) | Num n \<Rightarrow> Inr n)"

text \<open>\<open>z.enum(['relevance', 'date_asc', 'date_desc', 'az']).optional().default('relevance')\<close>\<close>

definition z_sort_enum :: "string \<Rightarrow> qvalue \<Rightarrow> ZodIssue + sort_mode" where
  "z_sort_enum field x =
     (case x of
        QString s \<Rightarrow>
          if s = ''relevance'' then Inr relevance
          else if s = ''date_asc'' then Inr date_asc
          else if s = ''date_desc'' then Inr date_desc
          else if s = ''az'' then Inr az
          else Inl (issue ''invalid_enum_value'' field)
      | _ \<Rightarrow> Inl (issue ''invalid_type'' field))"

fun issues_of :: "ZodIssue + 'a \<Rightarrow> ZodIssue list" where
  "issues_of (Inl e) = [e]"
| "issues_of (Inr _) = []"

text \<open>
  \<open>artifactSearchParamsSchema.parse\<close>: every property is checked, in the order of the
  schema; the issues are collected and thrown together as one \<open>ZodError\<close> (\<open>Inl\<close>), and
  without an issue the parsed object is returned (\<open>Inr\<close>).
\<close>

definition artifactSearchParamsSchema_parse ::
  "search_input \<Rightarrow> ZodIssue list + ArtifactSearchParams" where
  "artifactSearchParamsSchema_parse input =
     (let query = z_string_optional ''query'' (query_i input);
          cultures = z_facet_optional ''cultures'' (cultures_i input);
          materials = z_facet_optional ''materials'' (materials_i input);
          dateStart = z_number_optional ''dateStart'' (dateStart_i input);
          dateEnd = z_number_optional ''dateEnd'' (dateEnd_i input);
          tags = z_facet_optional ''tags'' (tags_i input);
          site = z_string_optional ''site'' (site_i input);
          page = z_number_default ''page'' (page_i input);
          limit = z_number_default ''limit'' (limit_i input);
          sort = z_sort_enum ''sort'' (sort_i input);
          issues = issues_of query @ issues_of cultures @ issues_of materials
            @ issues_of dateStart @ issues_of dateEnd @ issues_of tags @ issues_of site
            @ issues_of page @ issues_of limit @ issues_of sort
      in if issues \<noteq> [] then Inl issues
         else Inr \<lparr> query_v = projr query, cultures_v = projr cultures,
                materials_v = projr materials, dateStart_v = projr dateStart,
                dateEnd_v = projr dateEnd, tags_v = projr tags, site_v = projr site,
                has3dModel_v = Some (has3dModel_i input), page_v = projr page,
                limit_v = projr limit, sort_v = projr sort \<rparr>)"

section \<open>Storage (server/storage.ts)\<close>

datatype sort_dir = asc | desc

text \<open>
  The query \<open>listArtifacts\<close> sends: one \<open>ORDER BY\<close> column with its direction, and the
  \<open>LIMIT\<close> and \<open>OFFSET\<close> clauses, each of which may be absent.  There is no \<open>WHERE\<close>.
\<close>

record select_query =
  order_column :: string
  order_dir :: sort_dir
  limit_clause :: "int option"
  offset_clause :: "int option"

text \<open>
  The database: the rows of the two tables, and what SQL leaves to the server.
  \<open>ORDER BY\<close> fixes the order of rows only as far as their keys differ, and the order of
  text depends on the collation.  So the database brings its collation, and for every
  query the order in which its executor meets the rows (\<open>artifacts_arrival\<close> for a query
  on \<open>artifacts\<close>, \<open>images_arrival\<close> for the images of one artifact); rows with equal
  keys come out in that order.  The arrival order may differ from query to query and is
  not the order of insertion; a database rearranges the rows it is given and neither
  drops nor invents one.
\<close>

record Storage =
  artifacts_table :: "Artifact list"
  artifact_images_table :: "ArtifactImage list"
  collation :: "string \<Rightarrow> string \<Rightarrow> bool"
  artifacts_arrival :: "select_query \<Rightarrow> Artifact list \<Rightarrow> Artifact list"
  images_arrival :: "int \<Rightarrow> ArtifactImage list \<Rightarrow> ArtifactImage list"

text \<open>
  Sorting the rows in their arrival order by insertion keeps rows with equal keys in
  arrival order.  Since the arrival order is any order, this gives every result that is
  sorted by the key, and no other.
\<close>

fun insert_row :: "('a \<Rightarrow> 'a \<Rightarrow> bool) \<Rightarrow> 'a \<Rightarrow> 'a list \<Rightarrow> 'a list" where
  "insert_row le x [] = [x]"
| "insert_row le x (y # ys) = (if le x y then x # y # ys else y # insert_row le x ys)"

fun order_rows :: "('a \<Rightarrow> 'a \<Rightarrow> bool) \<Rightarrow> 'a list \<Rightarrow> 'a list" where
  "order_rows le [] = []"
| "order_rows le (x # xs) = insert_row le x (order_rows le xs)"

text \<open>
  \<open>NULL\<close> counts as larger than every value, which puts it last ascending and first
  descending.
\<close>

fun null_last :: "('a \<Rightarrow> 'a \<Rightarrow> bool) \<Rightarrow> 'a option \<Rightarrow> 'a option \<Rightarrow> bool" where
  "null_last le x None = True"
| "null_last le None (Some b) = False"
| "null_last le (Some a) (Some b) = le a b"

definition directed :: "sort_dir \<Rightarrow> ('a \<Rightarrow> 'a \<Rightarrow> bool) \<Rightarrow> 'a \<Rightarrow> 'a \<Rightarrow> bool" where
  "directed dir le = (if dir = asc then le else (\<lambda>a b. le b a))"

text \<open>
  The comparison of \<open>artifacts[sortBy]\<close> for the three columns the search route sorts
  by, text under the collation of the database.  The model covers no other column; a
  name that is no column gives no valid query.
\<close>

definition artifacts_column ::
  "(string \<Rightarrow> string \<Rightarrow> bool) \<Rightarrow> string \<Rightarrow> (Artifact \<Rightarrow> Artifact \<Rightarrow> bool) option" where
  "artifacts_column text_le sortBy =
     (if sortBy = ''id'' then Some (\<lambda>a b. a_id a \<le> a_id b)
      else if sortBy = ''title'' then Some (\<lambda>a b. text_le (a_title a) (a_title b))
      else if sortBy = ''date_start''
        then Some (\<lambda>a b. null_last (\<le>) (a_date_start a) (a_date_start b))
      else None)"

text \<open>
  What the database answers to a query on \<open>artifacts\<close>.  \<open>LIMIT\<close> and \<open>OFFSET\<close> are of
  type \<open>bigint\<close>: a value above \<open>2^63 - 1\<close> is rejected, and so is a negative \<open>OFFSET\<close>.
  The rejected promise is \<open>Inl\<close>.
\<close>

definition out_of_bigint :: "int option \<Rightarrow> bool" where
  "out_of_bigint x = (case x of None \<Rightarrow> False | Some v \<Rightarrow> v > 2 ^ 63 - 1)"

definition run_select :: "Storage \<Rightarrow> select_query \<Rightarrow> string + Artifact list" where
  "run_select db q =
     (case artifacts_column (collation db) (order_column q) of
        None \<Rightarrow> Inl ''invalid query''
      | Some le \<Rightarrow>
          if out_of_bigint (limit_clause q) \<or> out_of_bigint (offset_clause q)
            then Inl ''value out of range for type bigint''
          else if (case offset_clause q of None \<Rightarrow> False | Some v \<Rightarrow> v < 0)
            then Inl ''OFFSET must not be negative''
          else
            let ordered = order_rows (directed (order_dir q) le)
                            (artifacts_arrival db q (artifacts_table db));
                skipped = (case offset_clause q of None \<Rightarrow> ordered
                           | Some v \<Rightarrow> drop (nat v) ordered)
            in Inr (case limit_clause q of None \<Rightarrow> skipped | Some v \<Rightarrow> take (nat v) skipped))"

record ListOptions =
  limit_o :: "int option"
  offset_o :: "int option"
  sortBy_o :: "string option"
  sortDir_o :: "sort_dir option"

text \<open>
  \<open>listArtifacts\<close> builds the query with the query builder, which writes the \<open>LIMIT\<close>
  clause only for a limit that is not negative and the \<open>OFFSET\<close> clause only for an offset
  that is not zero, and awaits the answer of the database.
\<close>

definition listArtifacts :: "Storage \<Rightarrow> ListOptions \<Rightarrow> string + Artifact list" where
  "listArtifacts db options =
     (let limit = (case limit_o options of None \<Rightarrow> 12 | Some v \<Rightarrow> v);
          offset = (case offset_o options of None \<Rightarrow> 0 | Some v \<Rightarrow> v);
          sortBy = (case sortBy_o options of None \<Rightarrow> ''id'' | Some v \<Rightarrow> v);
          sortDir = (case sortDir_o options of None \<Rightarrow> desc | Some v \<Rightarrow> v)
      in run_select db
           \<lparr> order_column = sortBy, order_dir = sortDir,
             limit_clause = (if 0 \<le> limit then Some limit else None),
             offset_clause = (if offset \<noteq> 0 then Some offset else None) \<rparr>)"

text \<open>
  \<open>getArtifactImages\<close>: the images of one artifact, ordered by \<open>sort_order\<close> ascending.
\<close>

definition getArtifactImages :: "Storage \<Rightarrow> int \<Rightarrow> ArtifactImage list" where
  "getArtifactImages db artifactId =
     order_rows (\<lambda>a b. null_last (\<le>) (i_sort_order a) (i_sort_order b))
       (images_arrival db artifactId
          (filter (\<lambda>i. i_artifact_id i = artifactId) (artifact_images_table db)))"


section \<open>Search route (server/routes.ts)\<close>

subsection \<open>The query for the search engine\<close>

record range_bounds =
  gte :: "int option"
  lte :: "int option"

datatype es_clause =
    MultiMatch string "string list" string
  | Terms string "string list"
  | TermString string string
  | TermBool string bool
  | RangeClause "(string \<times> range_bounds) list"

record bool_query =
  must :: "es_clause list"
  filter_clauses :: "es_clause list"

record es_body =
  query_b :: bool_query
  sort_b :: "(string \<times> sort_dir) list option"

text \<open>
  \<open>Array.isArray(x) ? x : [x]\<close> under the guard \<open>if (x)\<close>: an absent facet and an empty
  string give no values.
\<close>

definition facet_values :: "string_or_array option \<Rightarrow> string list" where
  "facet_values x =
     (case x of
        None \<Rightarrow> []
      | Some (Arr xs) \<Rightarrow> xs
      | Some (Str s) \<Rightarrow> if s = [] then [] else [s])"

definition buildElasticsearchQuery :: "ArtifactSearchParams \<Rightarrow> es_body" where
  "buildElasticsearchQuery params =
     (let must_list = (if truthy_string (query_v params)
            then [MultiMatch (the (query_v params))
                    [''title^3'', ''description^2'', ''culture'', ''period'', ''materials'',
                     ''site'', ''tags'']
                    ''AUTO'']
            else []);
          filter_list = [];
          filter_list = (if length (facet_values (cultures_v params)) > 0
            then filter_list @ [Terms ''culture'' (facet_values (cultures_v params))]
            else filter_list);
          filter_list = (if length (facet_values (materials_v params)) > 0
            then filter_list @ [Terms ''materials'' (facet_values (materials_v params))]
            else filter_list);
          filter_list = (if length (facet_values (tags_v params)) > 0
            then filter_list @ [Terms ''tags'' (facet_values (tags_v params))]
            else filter_list);
          filter_list = (if truthy_string (site_v params)
            then filter_list @ [TermString ''site'' (the (site_v params))]
            else filter_list);
          filter_list = (if has3dModel_v params = Some True
            then filter_list @ [TermBool ''has_3d_model'' True]
            else filter_list);
          filter_list = (if dateStart_v params \<noteq> None \<or> dateEnd_v params \<noteq> None
            then filter_list @
              [RangeClause ([(''date_start'', \<lparr> gte = dateStart_v params, lte = None \<rparr>)]
                 @ (if dateEnd_v params \<noteq> None
                    then [(''date_end'', \<lparr> gte = None, lte = dateEnd_v params \<rparr>)] else []))]
            else filter_list);
          sort_list = (case sort_v params of
              date_asc \<Rightarrow> [(''date_start'', asc)]
            | date_desc \<Rightarrow> [(''date_start'', desc)]
            | az \<Rightarrow> [(''title'', asc)]
            | relevance \<Rightarrow> if \<not> truthy_string (query_v params) then [(''id'', desc)] else [])
      in \<lparr> query_b = \<lparr> must = must_list, filter_clauses = filter_list \<rparr>,
           sort_b = (if length sort_list > 0 then Some sort_list else None) \<rparr>)"

subsection \<open>Sorting without the search engine\<close>

text \<open>The validated sort mode is one of four strings; the two helpers take a string.\<close>

definition sort_name :: "sort_mode \<Rightarrow> string" where
  "sort_name s =
     (case s of relevance \<Rightarrow> ''relevance'' | date_asc \<Rightarrow> ''date_asc''
      | date_desc \<Rightarrow> ''date_desc'' | az \<Rightarrow> ''az'')"

definition getSortFieldFromSearchParams :: "string \<Rightarrow> string" where
  "getSortFieldFromSearchParams s =
     (if s = ''date_asc'' \<or> s = ''date_desc'' then ''date_start''
      else if s = ''az'' then ''title''
      else ''id'')"

definition getSortDirectionFromSearchParams :: "string \<Rightarrow> sort_dir" where
  "getSortDirectionFromSearchParams s =
     (if s = ''date_asc'' \<or> s = ''az'' then asc else desc)"

subsection \<open>The route \<open>GET /api/search\<close>\<close>

text \<open>Truthiness and string coercion of a value of \<open>req.query\<close>.\<close>

definition truthy :: "qvalue option \<Rightarrow> bool" where
  "truthy x \<longleftrightarrow> (case x of None \<Rightarrow> False | Some (QString s) \<Rightarrow> s \<noteq> [] | Some _ \<Rightarrow> True)"

definition as_string :: "qvalue \<Rightarrow> string" where
  "as_string x =
     (case x of QString s \<Rightarrow> s | QArray xs \<Rightarrow> Array_join '','' xs
      | QObject \<Rightarrow> ''[object Object]'')"

text \<open>\<open>x ? parseInt(x as string) : undefined\<close>\<close>

definition parsed_number :: "qvalue option \<Rightarrow> number option" where
  "parsed_number x = (if truthy x then Some (parseInt (as_string (the x))) else None)"

text \<open>The object literal built from \<open>req.query\<close>.\<close>

definition search_input_of :: "ParsedQs \<Rightarrow> search_input" where
  "search_input_of req_query =
     \<lparr> query_i = req_query ''query'',
       cultures_i = req_query ''cultures'',
       materials_i = req_query ''materials'',
       dateStart_i = parsed_number (req_query ''dateStart''),
       dateEnd_i = parsed_number (req_query ''dateEnd''),
       tags_i = req_query ''tags'',
       site_i = req_query ''site'',
       has3dModel_i = (req_query ''has3dModel'' = Some (QString ''true'')),
       page_i = (case parsed_number (req_query ''page'') of Some n \<Rightarrow> n | None \<Rightarrow> Num 1),
       limit_i = (case parsed_number (req_query ''limit'') of Some n \<Rightarrow> n | None \<Rightarrow> Num 12),
       sort_i = (if truthy (req_query ''sort'') then the (req_query ''sort'')
                 else QString ''relevance'') \<rparr>"

record es_search_request =
  index_q :: string
  from_q :: int
  size_q :: int
  body_q :: es_body

record es_search_result =
  hits :: "ArtifactES list"
  total_value :: int

text \<open>
  The search engine is outside the program: a client answers a request with a result or
  fails (\<open>Inl\<close>).  \<open>None\<close> for the client is the server started without an engine.
\<close>

type_synonym es_client = "es_search_request \<Rightarrow> string + es_search_result"

datatype backend_call =
    EsSearch es_search_request
  | ListArtifacts ListOptions
  | GetArtifactImages int

record pagination =
  page_r :: int
  limit_r :: int
  total_r :: int
  totalPages_r :: "int option"

text \<open>
  \<open>Math.ceil(total / limit)\<close> on integers.  Division by zero gives no finite number,
  which JSON writes as \<open>null\<close> (\<open>None\<close>).
\<close>

definition Math_ceil_div :: "int \<Rightarrow> int \<Rightarrow> int option" where
  "Math_ceil_div a b = (if b = 0 then None else Some (- ((- a) div b)))"

text \<open>
  A row with its images: \<open>{ ...art, image_urls: urls, primary_image_url: urls[0] || null }\<close>.
\<close>

record EnrichedArtifact = Artifact +
  image_urls :: "string list"
  primary_image_url :: "string option"

definition first_or_null :: "string list \<Rightarrow> string option" where
  "first_or_null urls = (case urls of [] \<Rightarrow> None | u # _ \<Rightarrow> if u = [] then None else Some u)"

definition enrich_row :: "Storage \<Rightarrow> Artifact \<Rightarrow> EnrichedArtifact" where
  "enrich_row db art =
     (let imgs = getArtifactImages db (a_id art);
          urls = map i_url imgs
      in Artifact.extend art
           (EnrichedArtifact.fields urls (first_or_null urls)))"

definition enrich_doc :: "Storage \<Rightarrow> ArtifactES \<Rightarrow> ArtifactES" where
  "enrich_doc db art =
     (let imgs = getArtifactImages db (es_id art);
          urls = map i_url imgs
      in art\<lparr> es_image_urls := Some urls, es_primary_image_url := first_or_null urls \<rparr>)"

text \<open>
  What the route sends: a status and the properties of the JSON object, or the error
  handed to \<open>next\<close>.
\<close>

datatype body_value =
    Rows "Artifact list"
  | Docs "ArtifactES list"
  | EnrichedRows "EnrichedArtifact list"
  | PaginationInfo pagination
  | Message string
  | Errors "ZodIssue list"

datatype response = Json nat "(string \<times> body_value) list" | NextError string

definition fallback_options :: "ArtifactSearchParams \<Rightarrow> ListOptions" where
  "fallback_options searchParams =
     \<lparr> limit_o = Some (limit_v searchParams),
       offset_o = Some ((page_v searchParams - 1) * limit_v searchParams),
       sortBy_o = Some (getSortFieldFromSearchParams (sort_name (sort_v searchParams))),
       sortDir_o = Some (getSortDirectionFromSearchParams (sort_name (sort_v searchParams))) \<rparr>"

definition engine_request :: "ArtifactSearchParams \<Rightarrow> es_search_request" where
  "engine_request searchParams =
     \<lparr> index_q = ''artifacts'',
       from_q = (page_v searchParams - 1) * limit_v searchParams,
       size_q = limit_v searchParams,
       body_q = buildElasticsearchQuery searchParams \<rparr>"

definition page_info :: "ArtifactSearchParams \<Rightarrow> int \<Rightarrow> pagination" where
  "page_info searchParams n =
     \<lparr> page_r = page_v searchParams, limit_r = limit_v searchParams, total_r = n,
       totalPages_r = Math_ceil_div n (limit_v searchParams) \<rparr>"

text \<open>
  The handler in server/routes.ts.  It returns the response together with the calls it
  made to the search engine and the database, in order.
\<close>

definition search_route ::
  "es_client option \<Rightarrow> Storage \<Rightarrow> ParsedQs \<Rightarrow> response \<times> backend_call list" where
  "search_route esClient db req_query =
     (case artifactSearchParamsSchema_parse (search_input_of req_query) of
        Inl errors \<Rightarrow>
          (Json 400 [(''message'', Message ''Invalid search parameters''),
                     (''errors'', Errors errors)], [])
      | Inr searchParams \<Rightarrow>
          (case esClient of
             Some client \<Rightarrow>
               (case client (engine_request searchParams) of
                  Inl err \<Rightarrow> (NextError err, [EsSearch (engine_request searchParams)])
                | Inr body \<Rightarrow>
                    (Json 200 [(''artifacts'', Docs (hits body)),
                               (''pagination'',
                                PaginationInfo (page_info searchParams (total_value body)))],
                     [EsSearch (engine_request searchParams)]))
           | None \<Rightarrow>
               (case listArtifacts db (fallback_options searchParams) of
                  Inl err \<Rightarrow> (NextError err, [ListArtifacts (fallback_options searchParams)])
                | Inr artifacts \<Rightarrow>
                    (Json 200 [(''artifacts'', Rows artifacts),
                               (''pagination'',
                                PaginationInfo (page_info searchParams (int (length artifacts))))],
                     [ListArtifacts (fallback_options searchParams)]))))"

text \<open>
  The second copy of the routes file has a later version of the handler, which adds the
  images to every hit.
\<close>

definition search_route_enriched ::
  "es_client option \<Rightarrow> Storage \<Rightarrow> ParsedQs \<Rightarrow> response \<times> backend_call list" where
  "search_route_enriched esClient db req_query =
     (case artifactSearchParamsSchema_parse (search_input_of req_query) of
        Inl errors \<Rightarrow>
          (Json 400 [(''message'', Message ''Invalid search parameters''),
                     (''errors'', Errors errors)], [])
      | Inr searchParams \<Rightarrow>
          (case esClient of
             Some client \<Rightarrow>
               (case client (engine_request searchParams) of
                  Inl err \<Rightarrow> (NextError err, [EsSearch (engine_request searchParams)])
                | Inr body \<Rightarrow>
                    (Json 200 [(''artifacts'', Docs (map (enrich_doc db) (hits body))),
                               (''pagination'',
                                PaginationInfo (page_info searchParams (total_value body)))],
                     EsSearch (engine_request searchParams)
                       # map (\<lambda>art. GetArtifactImages (es_id art)) (hits body)))
           | None \<Rightarrow>
               (case listArtifacts db (fallback_options searchParams) of
                  Inl err \<Rightarrow> (NextError err, [ListArtifacts (fallback_options searchParams)])
                | Inr base \<Rightarrow>
                    (Json 200 [(''artifacts'', EnrichedRows (map (enrich_row db) base)),
                               (''pagination'',
                                PaginationInfo (page_info searchParams (int (length base))))],
                     ListArtifacts (fallback_options searchParams)
                       # map (\<lambda>art. GetArtifactImages (a_id art)) base))))"


section \<open>Notions of the specification\<close>

subsection \<open>The range clause of a query\<close>


subsection \<open>Reading a response\<close>

definition status_code :: "response \<Rightarrow> nat option" where
  "status_code res = (case res of Json st _ \<Rightarrow> Some st | NextError _ \<Rightarrow> None)"

definition property :: "response \<Rightarrow> string \<Rightarrow> body_value option" where
  "property res name = (case res of Json _ props \<Rightarrow> map_of props name | NextError _ \<Rightarrow> None)"


definition reported_total :: "response \<Rightarrow> int option" where
  "reported_total res =
     (case property res ''pagination'' of Some (PaginationInfo p) \<Rightarrow> Some (total_r p) | _ \<Rightarrow> None)"

subsection \<open>Sample data\<close>

definition sample_artifact :: "int \<Rightarrow> string \<Rightarrow> int option \<Rightarrow> Artifact" where
  "sample_artifact i t d =
     \<lparr> a_id = i, a_title = t, a_description = ''sample'', a_culture = Some ''Roman'',
       a_period = None, a_date_start = d, a_date_end = d, a_materials = Some [''bronze''],
       a_dimensions = None, a_provenance = None, a_id_number = t, a_findspot_lat = None,
       a_findspot_lng = None, a_site = None, a_has_3d_model = Some False, a_model_url = None,
       a_model_type = None, a_created_at = None \<rparr>"

definition sample_image :: "int \<Rightarrow> int \<Rightarrow> string \<Rightarrow> bool \<Rightarrow> int \<Rightarrow> ArtifactImage" where
  "sample_image i a u p s =
     \<lparr> i_id = i, i_artifact_id = a, i_url = u, i_caption = None, i_is_primary = Some p,
       i_sort_order = Some s \<rparr>"

text \<open>
  The sample databases compare text byte by byte and meet the rows in table order.
\<close>

fun bytewise_le :: "string \<Rightarrow> string \<Rightarrow> bool" where
  "bytewise_le [] ys = True"
| "bytewise_le (x # xs) [] = False"
| "bytewise_le (x # xs) (y # ys) =
     (if x = y then bytewise_le xs ys else (of_char x :: nat) < of_char y)"

text \<open>
  One artifact with three images, stored in the order third, first, second by
  \<open>sort_order\<close>; the second by \<open>sort_order\<close> is the primary one.
\<close>

definition gallery_db :: Storage where
  "gallery_db =
     \<lparr> artifacts_table = [sample_artifact 1 ''amphora'' (Some (- 300))],
       artifact_images_table =
         [sample_image 1 1 ''/img/c.jpg'' False 3, sample_image 2 1 ''/img/a.jpg'' False 1,
          sample_image 3 1 ''/img/b.jpg'' True 2],
       collation = bytewise_le, artifacts_arrival = (\<lambda>q rows. rows),
       images_arrival = (\<lambda>i rows. rows) \<rparr>"

text \<open>Thirteen artifacts and no image.\<close>

definition thirteen_db :: Storage where
  "thirteen_db =
     \<lparr> artifacts_table = map (\<lambda>i. sample_artifact i ''coin'' (Some 100)) [1..13],
       artifact_images_table = [],
       collation = bytewise_le, artifacts_arrival = (\<lambda>q rows. rows),
       images_arrival = (\<lambda>i rows. rows) \<rparr>"

definition sample_params :: ArtifactSearchParams where
  "sample_params =
     \<lparr> query_v = Some ''axe'', cultures_v = Some (Str ''Roman''), materials_v = None,
       dateStart_v = Some (- 500), dateEnd_v = Some 200, tags_v = None, site_v = None,
       has3dModel_v = Some False, page_v = 2, limit_v = 12, sort_v = relevance \<rparr>"




section \<open>Auxiliary notions for the proofs\<close>

text \<open>The characters \<open>decimal\<close> produces.\<close>

definition dec_digit :: "char \<Rightarrow> bool" where
  "dec_digit c \<longleftrightarrow> (\<exists>d<10. c = ''0123456789'' ! d)"


text \<open>
  The pairs \<open>buildQueryString\<close> appends, one optional pair per field, in the order of the
  source.
\<close>

definition opt_pair :: "bool \<Rightarrow> string \<Rightarrow> string \<Rightarrow> URLSearchParams" where
  "opt_pair c k v = (if c then [(k, v)] else [])"


definition query_pairs :: "FilterState \<Rightarrow> URLSearchParams" where
  "query_pairs s =
     opt_pair (searchQuery s \<noteq> []) ''query'' (searchQuery s)
     @ opt_pair (cultures s \<noteq> []) ''cultures'' (Array_join '','' (cultures s))
     @ opt_pair (materials s \<noteq> []) ''materials'' (Array_join '','' (materials s))
     @ opt_pair (fst (dateRange s) \<noteq> Num (- 3000)) ''dateStart'' (Number_toString (fst (dateRange s)))
     @ opt_pair (snd (dateRange s) \<noteq> Num 2000) ''dateEnd'' (Number_toString (snd (dateRange s)))
     @ opt_pair (has3dModel s) ''has3dModel'' ''true''
     @ opt_pair (sortOption s \<noteq> ''relevance'') ''sort'' (sortOption s)
     @ opt_pair (currentPage s \<noteq> Num 1) ''page'' (Number_toString (currentPage s))"


section \<open>Properties of the URL encoding and of the home page state\<close>

lemma below_16_cases:
  "d < 16 \<Longrightarrow> d = 0 \<or> d = 1 \<or> d = 2 \<or> d = 3 \<or> d = 4 \<or> d = 5 \<or> d = 6 \<or> d = 7
     \<or> d = 8 \<or> d = 9 \<or> d = 10 \<or> d = 11 \<or> d = 12 \<or> d = 13 \<or> d = 14 \<or> d = (15::nat)"
  by presburger

lemma hex_digit_value:
  assumes "d < 16"
  shows "digit_value 16 (''0123456789ABCDEF'' ! d) = Some d"
  using below_16_cases [OF assms] by (elim disjE) (simp_all add: digit_value_def)

lemma hex_digit_not_plus:
  assumes "d < 16"
  shows "''0123456789ABCDEF'' ! d \<noteq> CHR ''+''"
  using below_16_cases [OF assms] by (elim disjE) simp_all

lemma hex_digit_plain:
  assumes "d < 16"
  shows "''0123456789ABCDEF'' ! d \<notin> {CHR ''&'', CHR ''='', CHR ''?''}"
  using below_16_cases [OF assms] by (elim disjE) simp_all

lemma nibbles: "(of_char c :: nat) div 16 < 16" "(of_char c :: nat) mod 16 < 16"
proof -
  have "(of_char c :: nat) < 16 * 16" by simp
  then show "(of_char c :: nat) div 16 < 16" by (rule less_mult_imp_div_less)
  show "(of_char c :: nat) mod 16 < 16" by simp
qed

lemma decode_serialize_byte:
  "percent_decode (plus_to_space (serialize_byte c) @ r) = c # percent_decode r"
proof -
  consider "c = CHR '' ''" | "c \<noteq> CHR '' ''" "unreserved c" | "c \<noteq> CHR '' ''" "\<not> unreserved c"
    by blast
  then show ?thesis
  proof cases
    case 1
    then show ?thesis by (simp add: serialize_byte_def plus_to_space_def)
  next
    case 2
    then have "c \<noteq> CHR ''+''" "c \<noteq> CHR ''%''" by (auto simp: unreserved_def)
    with 2 show ?thesis by (simp add: serialize_byte_def plus_to_space_def)
  next
    case 3
    have "char_of (16 * (of_char c div 16) + of_char c mod 16 :: nat) = c" by simp
    with 3 show ?thesis
      by (simp add: serialize_byte_def plus_to_space_def hex_digit_value hex_digit_not_plus nibbles)
  qed
qed

lemma plus_to_space_append [simp]: "plus_to_space (xs @ ys) = plus_to_space xs @ plus_to_space ys"
  by (simp add: plus_to_space_def)

lemma plus_to_space_Nil [simp]: "plus_to_space [] = []"
  by (simp add: plus_to_space_def)

lemma serialize_bytes_Cons: "serialize_bytes (c # s) = serialize_byte c @ serialize_bytes s"
  by (simp add: serialize_bytes_def)

lemma decode_serialize_bytes: "percent_decode (plus_to_space (serialize_bytes s)) = s"
proof (induction s)
  case Nil
  show ?case by (simp add: serialize_bytes_def)
next
  case (Cons c s)
  then show ?case by (simp only: serialize_bytes_Cons plus_to_space_append decode_serialize_byte)
qed

lemma serialize_byte_plain: "set (serialize_byte c) \<inter> {CHR ''&'', CHR ''='', CHR ''?''} = {}"
proof -
  have "c \<notin> {CHR ''&'', CHR ''='', CHR ''?''}" if "unreserved c"
    using that by (auto simp: unreserved_def)
  then show ?thesis
    using hex_digit_plain [OF nibbles(1) [of c]] hex_digit_plain [OF nibbles(2) [of c]]
    by (auto simp: serialize_byte_def)
qed

lemma serialize_bytes_plain: "set (serialize_bytes s) \<inter> {CHR ''&'', CHR ''='', CHR ''?''} = {}"
  using serialize_byte_plain by (induction s) (auto simp: serialize_bytes_def)


lemma split_no_sep: "sep \<notin> set x \<Longrightarrow> String_split sep x = [x]"
  by (induction x) auto

lemma split_append_sep:
  "sep \<notin> set x \<Longrightarrow> String_split sep (x @ sep # r) = x # String_split sep r"
  by (induction x) auto

lemma split_join:
  assumes "xs \<noteq> []" and "\<forall>x \<in> set xs. sep \<notin> set x"
  shows "String_split sep (Array_join [sep] xs) = xs"
  using assms
proof (induction "[sep]" xs rule: Array_join.induct)
  case 1
  then show ?case by simp
next
  case (2 x)
  then show ?case by (simp add: split_no_sep)
next
  case (3 x y ys)
  then show ?case by (simp add: split_append_sep)
qed

lemma parse_pair_serialized:
  "parse_pair (serialize_bytes name @ ''='' @ serialize_bytes val) = (name, val)"
proof -
  have ne: "CHR ''='' \<notin> set (serialize_bytes name)"
    using serialize_bytes_plain [of name] by auto
  then have "takeWhile (\<lambda>c. c \<noteq> CHR ''='') (serialize_bytes name @ ''='' @ serialize_bytes val)
      = serialize_bytes name"
    by (simp add: takeWhile_append)
  moreover have "dropWhile (\<lambda>c. c \<noteq> CHR ''='') (serialize_bytes name @ ''='' @ serialize_bytes val)
      = ''='' @ serialize_bytes val"
    using ne by (simp add: dropWhile_append)
  ultimately show ?thesis by (simp add: parse_pair_def decode_serialize_bytes)
qed

lemma serialize_pair_plain: "CHR ''&'' \<notin> set (serialize_pair p)" "CHR ''?'' \<notin> set (serialize_pair p)"
  using serialize_bytes_plain [of "fst p"] serialize_bytes_plain [of "snd p"]
  by (auto simp: serialize_pair_def)

lemma serialize_pair_nonempty: "serialize_pair p \<noteq> []"
  by (simp add: serialize_pair_def)

lemma set_join: "set (Array_join sep xs) \<subseteq> set sep \<union> \<Union> (set ` set xs)"
  by (induction sep xs rule: Array_join.induct) auto

lemma toString_no_question: "take 1 (URLSearchParams_toString params) \<noteq> ''?''"
proof
  assume "take 1 (URLSearchParams_toString params) = ''?''"
  then have "CHR ''?'' \<in> set (URLSearchParams_toString params)"
    by (cases "URLSearchParams_toString params") auto
  then show False
    using set_join [of "''&''" "map serialize_pair params"] serialize_pair_plain(2)
    by (auto simp: URLSearchParams_toString_def)
qed

lemma URLSearchParams_round_trip:
  "URLSearchParams_new (URLSearchParams_toString params) = params"
proof (cases "params = []")
  case True
  then show ?thesis by (simp add: URLSearchParams_new_def URLSearchParams_toString_def)
next
  case False
  have "String_split CHR ''&'' (Array_join ''&'' (map serialize_pair params))
      = map serialize_pair params"
    using False by (intro split_join) (auto simp: serialize_pair_plain)
  moreover have "filter (\<lambda>bytes. bytes \<noteq> []) (map serialize_pair params) = map serialize_pair params"
    by (simp add: filter_id_conv serialize_pair_nonempty)
  moreover have "parse_pair (serialize_pair p) = p" for p
    using parse_pair_serialized [of "fst p" "snd p"] by (simp add: serialize_pair_def)
  then have "map parse_pair (map serialize_pair params) = params"
    by (induction params) simp_all
  ultimately show ?thesis
    using toString_no_question [of params]
    by (simp add: URLSearchParams_new_def URLSearchParams_toString_def)
qed


lemma below_10_cases:
  "d < 10 \<Longrightarrow> d = 0 \<or> d = 1 \<or> d = 2 \<or> d = 3 \<or> d = 4 \<or> d = 5 \<or> d = 6 \<or> d = 7
     \<or> d = 8 \<or> d = (9::nat)"
  by presburger

lemma dec_digit_value:
  assumes "d < 10"
  shows "digit_value 10 (''0123456789'' ! d) = Some d"
  using below_10_cases [OF assms] by (elim disjE) (simp_all add: digit_value_def)

lemma dec_digit_props:
  assumes "dec_digit c"
  shows "digit_value 10 c \<noteq> None" "\<not> is_whitespace c"
    "c \<noteq> CHR ''-''" "c \<noteq> CHR ''+''" "c \<noteq> CHR ''x''" "c \<noteq> CHR ''X''"
proof -
  obtain d where d: "d < 10" "c = ''0123456789'' ! d" using assms by (auto simp: dec_digit_def)
  show "digit_value 10 c \<noteq> None" using d by (simp add: dec_digit_value)
  show "\<not> is_whitespace c" using below_10_cases [OF d(1)] d(2)
    by (elim disjE) (simp_all add: is_whitespace_def)
  show "c \<noteq> CHR ''-''" "c \<noteq> CHR ''+''" "c \<noteq> CHR ''x''" "c \<noteq> CHR ''X''"
    using below_10_cases [OF d(1)] d(2) by (elim disjE; simp)+
qed

lemma decimal_digits: "\<forall>c \<in> set (decimal n). dec_digit c"
proof (induction n rule: decimal.induct)
  case (1 n)
  show ?case
  proof (cases "n < 10")
    case True
    then show ?thesis by (subst decimal.simps) (auto simp: dec_digit_def)
  next
    case False
    have "dec_digit (''0123456789'' ! (n mod 10))" unfolding dec_digit_def
      by (rule exI [of _ "n mod 10"]) simp
    with False 1 show ?thesis by (subst decimal.simps) auto
  qed
qed

lemma decimal_nonempty: "decimal n \<noteq> []"
  by (subst decimal.simps) simp

lemma decimal_value:
  "foldl (\<lambda>a c. a * 10 + the (digit_value 10 c)) 0 (decimal n) = n"
proof (induction n rule: decimal.induct)
  case (1 n)
  show ?case
  proof (cases "n < 10")
    case True
    then show ?thesis by (subst decimal.simps) (simp add: dec_digit_value)
  next
    case False
    with 1 show ?thesis by (subst decimal.simps) (simp add: dec_digit_value)
  qed
qed

lemma parseInt_digits:
  assumes "S \<noteq> []" "\<forall>c \<in> set S. dec_digit c"
  shows "dropWhile is_whitespace S = S" "take 1 S \<noteq> ''-''" "take 1 S \<noteq> ''+''"
    "take 2 S \<noteq> ''0x''" "take 2 S \<noteq> ''0X''" "takeWhile (\<lambda>c. digit_value 10 c \<noteq> None) S = S"
proof -
  obtain c cs where S: "S = c # cs" using assms(1) by (cases S) auto
  have c: "dec_digit c" using assms(2) S by simp
  show "dropWhile is_whitespace S = S" using dec_digit_props(2) [OF c] S by simp
  show "take 1 S \<noteq> ''-''" "take 1 S \<noteq> ''+''"
    using dec_digit_props(3,4) [OF c] S by simp_all
  show "take 2 S \<noteq> ''0x''" "take 2 S \<noteq> ''0X''"
  proof -
    have "take 2 S \<noteq> ''0x'' \<and> take 2 S \<noteq> ''0X''"
    proof (cases cs)
      case Nil
      then show ?thesis using S by simp
    next
      case (Cons c' cs')
      then have "dec_digit c'" using assms(2) S by simp
      then show ?thesis using dec_digit_props(5,6) [of c'] S Cons by auto
    qed
    then show "take 2 S \<noteq> ''0x''" "take 2 S \<noteq> ''0X''" by simp_all
  qed
  show "takeWhile (\<lambda>c. digit_value 10 c \<noteq> None) S = S"
    using assms(2) dec_digit_props(1) by simp
qed

lemma parseInt_decimal: "parseInt (decimal n) = Num (int n)"
proof -
  note f = parseInt_digits [OF decimal_nonempty decimal_digits, of n]
  show ?thesis using f(2-5)
    by (simp add: parseInt_def Let_def f(1,6) decimal_nonempty decimal_value del: not_None_eq)
qed

lemma parseInt_minus_decimal: "parseInt (CHR ''-'' # decimal n) = Num (- int n)"
proof -
  note f = parseInt_digits [OF decimal_nonempty decimal_digits, of n]
  show ?thesis using f(2-5)
    by (simp add: parseInt_def Let_def f(1,6) decimal_nonempty decimal_value is_whitespace_def
        del: not_None_eq)
qed

lemma parseInt_NaN: "parseInt ''NaN'' = NaN"
  by (simp add: parseInt_def Let_def is_whitespace_def digit_value_def)

lemma parseInt_toString: "parseInt (Number_toString x) = x"
  by (cases x) (simp_all add: Number_toString_def parseInt_NaN parseInt_decimal parseInt_minus_decimal)


lemma get_opt_pair:
  "URLSearchParams_get (opt_pair c k v @ rest) k' =
     (if c \<and> k = k' then Some v else URLSearchParams_get rest k')"
  by (simp add: URLSearchParams_get_def opt_pair_def)

lemma get_last_pair:
  "URLSearchParams_get (opt_pair c k v) k' = (if c \<and> k = k' then Some v else None)"
  by (simp add: URLSearchParams_get_def opt_pair_def)

lemma buildQueryString_pairs: "buildQueryString s = URLSearchParams_toString (query_pairs s)"
  by (simp add: buildQueryString_def query_pairs_def opt_pair_def URLSearchParams_append_def Let_def)

lemma Number_toString_nonempty: "Number_toString x \<noteq> []"
  by (cases x) (simp_all add: Number_toString_def decimal_nonempty)

lemma or_default_Some: "v \<noteq> [] \<Longrightarrow> or_default (Some v) d = v"
  by (simp add: or_default_def)

lemma facet_round_trip:
  assumes "xs \<noteq> []" "\<forall>x \<in> set xs. x \<noteq> [] \<and> CHR '','' \<notin> set x"
  shows "filter Boolean (String_split CHR '','' (Array_join '','' xs)) = xs"
proof -
  have "String_split CHR '','' (Array_join '','' xs) = xs"
    using assms by (intro split_join) auto
  then show ?thesis using assms(2) by (simp add: Boolean_def filter_id_conv)
qed

lemma parseInt_defaults:
  "parseInt ''-3000'' = Num (- 3000)" "parseInt ''2000'' = Num 2000" "parseInt ''1'' = Num 1"
  by (simp_all add: parseInt_def Let_def is_whitespace_def digit_value_def)

lemma state_round_trip:
  assumes "facet_values_ok (cultures s)" "facet_values_ok (materials s)" "sortOption s \<noteq> []"
  shows "HomePage_state (buildQueryString s) = s"
proof -
  let ?p = "query_pairs s"
  have p: "URLSearchParams_new (buildQueryString s) = ?p"
    by (simp add: buildQueryString_pairs URLSearchParams_round_trip)
  have q: "or_default (URLSearchParams_get ?p ''query'') [] = searchQuery s"
    by (simp add: query_pairs_def get_opt_pair get_last_pair or_default_def)
  have c: "facet_param ?p ''cultures'' = cultures s"
    using assms(1) facet_round_trip [of "cultures s"]
    by (simp add: query_pairs_def get_opt_pair get_last_pair facet_param_def facet_values_ok_def list_all_iff)
  have m: "facet_param ?p ''materials'' = materials s"
    using assms(2) facet_round_trip [of "materials s"]
    by (simp add: query_pairs_def get_opt_pair get_last_pair facet_param_def facet_values_ok_def list_all_iff)
  have ds: "parseInt (or_default (URLSearchParams_get ?p ''dateStart'') ''-3000'') = fst (dateRange s)"
    by (simp add: query_pairs_def get_opt_pair get_last_pair or_default_def Number_toString_nonempty
        parseInt_toString parseInt_defaults)
  have de: "parseInt (or_default (URLSearchParams_get ?p ''dateEnd'') ''2000'') = snd (dateRange s)"
    by (simp add: query_pairs_def get_opt_pair get_last_pair or_default_def Number_toString_nonempty
        parseInt_toString parseInt_defaults)
  have h: "(URLSearchParams_get ?p ''has3dModel'' = Some ''true'') = has3dModel s"
    by (simp add: query_pairs_def get_opt_pair get_last_pair)
  have so: "or_default (URLSearchParams_get ?p ''sort'') ''relevance'' = sortOption s"
    using assms(3) by (simp add: query_pairs_def get_opt_pair get_last_pair or_default_def)
  have pg: "parseInt (or_default (URLSearchParams_get ?p ''page'') ''1'') = currentPage s"
    by (simp add: query_pairs_def get_opt_pair get_last_pair or_default_def Number_toString_nonempty
        parseInt_toString parseInt_defaults)
  show ?thesis
    unfolding HomePage_state_def p Let_def q c m ds de h so pg by simp
qed


lemma or_default_nonempty: "d \<noteq> [] \<Longrightarrow> or_default x d \<noteq> []"
  by (simp add: or_default_def split: option.splits)

lemma dispatch_sort_nonempty:
  "offered ev \<Longrightarrow> sortOption s \<noteq> [] \<Longrightarrow> sortOption (dispatch s ev) \<noteq> []"
  by (cases ev)
    (auto simp: handleSliderChange_def handlePageChange_def applyFilters_def resetFilters_def
      removeFilter_def)

lemma run_sort_nonempty:
  "list_all offered evs \<Longrightarrow> sortOption s \<noteq> [] \<Longrightarrow> sortOption (foldl dispatch s evs) \<noteq> []"
  by (induction evs arbitrary: s) (simp_all add: dispatch_sort_nonempty)

lemma reachable_sort_nonempty:
  "list_all offered evs \<Longrightarrow> sortOption (run_events search evs) \<noteq> []"
  unfolding run_events_def
  by (rule run_sort_nonempty) (simp_all add: HomePage_state_def Let_def or_default_nonempty)

text \<open>
  Claim C1, as amended.  Take any state the home page reaches: it loads from a URL whose
  numeric parameters are read as \<open>NaN\<close> or as safe integers, and then receives any events
  its controls offer.  If every selected facet value is non-empty and free of commas,
  then reading the query string built from the state gives back the state itself: the
  same query text, facet values in the same order, date range, 3D-model flag, sort option
  and page.  Nothing is clamped and nothing else is normalised: fields at their default
  are left out of the query string and read back as the default.
\<close>

theorem round_trip_reachable:
  assumes "exact_state (HomePage_state search)" and "list_all offered evs"
    and "s = run_events search evs"
    and "facet_values_ok (cultures s)" and "facet_values_ok (materials s)"
  shows "HomePage_state (buildQueryString s) = s"
  using assms reachable_sort_nonempty [of evs search] by (simp add: state_round_trip)

theorem round_trip_reachable_witness:
  "HomePage_state (buildQueryString (run_events ''page=3''
      [ToggleCulture ''Roman'', ToggleCulture ''Greek'', SliderChange (- 500), SortChange ''az'']))
   = \<lparr> searchQuery = [], cultures = [''Roman'', ''Greek''], materials = [],
       dateRange = (Num (- 500), Num 2000), has3dModel = False, sortOption = ''az'',
       currentPage = Num 3 \<rparr>"
proof -
  let ?evs = "[ToggleCulture ''Roman'', ToggleCulture ''Greek'', SliderChange (- 500), SortChange ''az'']"
  have init: "HomePage_state ''page=3'' = \<lparr> searchQuery = [], cultures = [], materials = [],
       dateRange = (Num (- 3000), Num 2000), has3dModel = False, sortOption = ''relevance'',
       currentPage = Num 3 \<rparr>"
    by code_simp
  have run: "run_events ''page=3'' ?evs = \<lparr> searchQuery = [], cultures = [''Roman'', ''Greek''], materials = [],
       dateRange = (Num (- 500), Num 2000), has3dModel = False, sortOption = ''az'',
       currentPage = Num 3 \<rparr>"
    by (simp add: run_events_def init toggle_def handleSliderChange_def)
  have h1: "exact_state (HomePage_state ''page=3'')"
    by (simp add: init exact_state_def exact_number_def safe_integer_def)
  have h2: "list_all offered ?evs" by simp
  have h4: "facet_values_ok (cultures (run_events ''page=3'' ?evs))"
    and h5: "facet_values_ok (materials (run_events ''page=3'' ?evs))"
    by (simp_all add: run facet_values_ok_def)
  show ?thesis
    using round_trip_reachable [OF h1 h2 refl h4 h5] by (simp add: run)
qed

text \<open>
  The claim as stated fails.  After toggling the culture \<open>a,b\<close> on the freshly loaded
  page the state holds the single culture \<open>a,b\<close>, and the query string built from it is
  read back as the two cultures \<open>a\<close> and \<open>b\<close>.  And no value is clamped: page 0 is
  read from the URL as page 0, serialised, and read back as page 0.
\<close>

theorem round_trip_counterexample:
  "cultures (run_events [] [ToggleCulture ''a,b'']) = [''a,b'']
   \<and> cultures (HomePage_state (buildQueryString (run_events [] [ToggleCulture ''a,b''])))
       = [''a'', ''b'']
   \<and> currentPage (HomePage_state ''page=0'') = Num 0
   \<and> currentPage (HomePage_state (buildQueryString (HomePage_state ''page=0''))) = Num 0"
  by code_simp

text \<open>
  Claim C8.  The default filter state (empty query text, no facet value, date range
  \<open>[-3000, 2000]\<close>, no 3D-model restriction, sort by relevance, page 1) serialises to
  the empty query string, and the empty query string is read back as exactly that
  state.  The helpers of the client library, which know no defaults, agree on the
  parameter object with every property absent.
\<close>

theorem default_omission:
  "buildQueryString
     \<lparr> searchQuery = [], cultures = [], materials = [],
       dateRange = (Num (- 3000), Num 2000), has3dModel = False,
       sortOption = ''relevance'', currentPage = Num 1 \<rparr> = []
   \<and> HomePage_state [] =
     \<lparr> searchQuery = [], cultures = [], materials = [],
       dateRange = (Num (- 3000), Num 2000), has3dModel = False,
       sortOption = ''relevance'', currentPage = Num 1 \<rparr>
   \<and> buildSearchQueryString no_params = []
   \<and> parseSearchParams [] = no_params"
proof -
  have "buildQueryString
     \<lparr> searchQuery = [], cultures = [], materials = [],
       dateRange = (Num (- 3000), Num 2000), has3dModel = False,
       sortOption = ''relevance'', currentPage = Num 1 \<rparr> = []"
    by (simp add: buildQueryString_def URLSearchParams_toString_def)
  moreover have "HomePage_state [] =
     \<lparr> searchQuery = [], cultures = [], materials = [],
       dateRange = (Num (- 3000), Num 2000), has3dModel = False,
       sortOption = ''relevance'', currentPage = Num 1 \<rparr>"
    by (simp add: HomePage_state_def URLSearchParams_new_def URLSearchParams_get_def
        facet_param_def or_default_def parseInt_defaults)
  moreover have "buildSearchQueryString no_params = []"
    by (simp add: buildSearchQueryString_def no_params_def truthy_string_def append_facet_def
        append_defined_def URLSearchParams_toString_def)
  moreover have "parseSearchParams [] = no_params"
    by (simp add: parseSearchParams_def URLSearchParams_new_def URLSearchParams_has_def)
  ultimately show ?thesis by simp
qed

text \<open>The home page drops empty tokens, for every query string.\<close>

lemma facet_param_nonempty: "[] \<notin> set (facet_param params name)"
  by (simp add: facet_param_def Boolean_def split: option.splits)

lemma HomePage_facets_nonempty:
  "[] \<notin> set (cultures (HomePage_state search)) \<and> [] \<notin> set (materials (HomePage_state search))"
  by (simp add: HomePage_state_def Let_def facet_param_nonempty)

text \<open>
  Claim C9.  \<open>parseSearchParams\<close> splits the facet parameter on commas but keeps the empty
  tokens: the query string \<open>cultures=a,,b\<close> is read as the three values \<open>a\<close>, the empty
  string and \<open>b\<close>, and \<open>tags=,x\<close> as the empty string and \<open>x\<close>.  The home page reads the
  same query string as \<open>a\<close> and \<open>b\<close>.
\<close>

theorem parseSearchParams_keeps_empty_tokens:
  "cultures_p (parseSearchParams ''cultures=a,,b'') = Some (Arr [''a'', [], ''b''])
   \<and> tags_p (parseSearchParams ''tags=,x'') = Some (Arr [[], ''x''])
   \<and> cultures (HomePage_state ''cultures=a,,b'') = [''a'', ''b'']"
  by code_simp

section \<open>Properties of the pagination control\<close>

lemma push_pages_upto: "push_pages i b acc = acc @ map Some [i..b]"
proof (induction i b acc rule: push_pages.induct)
  case (1 i b acc)
  show ?case
  proof (cases "i \<le> b")
    case True
    then show ?thesis using 1 by (subst push_pages.simps) (simp add: upto_rec1)
  next
    case False
    then show ?thesis by (subst push_pages.simps) simp
  qed
qed

lemma generatePages_small: "tp \<le> 7 \<Longrightarrow> generatePages cp tp = map Some [1..tp]"
  by (simp add: generatePages_def push_pages_upto)

lemma generatePages_large:
  assumes "7 < tp"
  shows "generatePages cp tp =
     (let start = max 2 (min (cp - 1) (tp - 3)) in
        [Some 1] @ (if 2 < start then [None] else []) @ map Some [start..start + 2]
          @ (if start + 2 < tp - 1 then [None] else []) @ [Some tp])"
proof -
  consider "cp \<le> 3" | "4 \<le> cp" "cp \<le> tp - 3" | "cp = tp - 2" | "tp - 1 \<le> cp"
    by linarith
  then show ?thesis
  proof cases
    case 1
    then show ?thesis using assms
      by (simp add: generatePages_def push_pages_upto Let_def max_def min_def)
  next
    case 2
    then show ?thesis using assms
      by (simp add: generatePages_def push_pages_upto Let_def max_def min_def add.commute)
  next
    case 3
    then show ?thesis using assms
      by (simp add: generatePages_def push_pages_upto Let_def max_def min_def)
  next
    case 4
    then show ?thesis using assms
      by (simp add: generatePages_def push_pages_upto Let_def max_def min_def)
  qed
qed

lemma numbers_map_Some: "numbers (map Some xs) = xs"
  by (induction xs) auto

lemma marked_gaps_upto: "i \<le> j \<Longrightarrow> marked_gaps (map Some [i..j])"
proof (induction "nat (j - i)" arbitrary: i)
  case 0
  then have "i = j" by simp
  then show ?case by simp
next
  case (Suc n)
  then have lt: "i < j" and le: "i + 1 \<le> j" and n: "n = nat (j - (i + 1))" by linarith+
  have tl: "marked_gaps (map Some [i + 1..j])" using Suc.hyps(1) [OF n le] .
  have "[i..j] = i # [i + 1..j]" using lt by (simp add: upto_rec1)
  moreover have "[i + 1..j] = (i + 1) # [i + 1 + 1..j]" by (rule upto_rec1 [OF le])
  ultimately show ?case using tl by simp
qed

lemma upto3: "[s..s + 2] = [s, s + 1, s + 2::int]"
  by (simp add: upto_rec1)

lemma generatePages_shape:
  assumes "1 < tp"
  shows "sorted_wrt (<) (numbers (generatePages cp tp)) \<and> marked_gaps (generatePages cp tp)
     \<and> hd (generatePages cp tp) = Some 1 \<and> last (generatePages cp tp) = Some tp"
proof (cases "tp \<le> 7")
  case True
  have ne: "[1..tp] \<noteq> []" using assms by simp
  have "sorted_wrt (<) [1..tp]" by (simp add: sorted_wrt_iff_nth_less)
  moreover have "marked_gaps (map Some [1..tp])" using assms by (simp add: marked_gaps_upto)
  moreover have "hd (map Some [1..tp]) = Some 1" using assms by (simp add: upto_rec1)
  moreover have "last (map Some [1..tp]) = Some tp"
    using assms ne by (simp add: last_map upto_rec2)
  ultimately show ?thesis using True by (simp add: generatePages_small numbers_map_Some)
next
  case False
  then have big: "7 < tp" by simp
  show ?thesis
    unfolding generatePages_large [OF big] Let_def upto3
    using big by (auto simp: max_def min_def)
qed

text \<open>
  Claim C7.  The control renders nothing when \<open>totalPages \<le> 1\<close> and lists every page
  when \<open>totalPages \<le> 7\<close>.  Above seven pages the sequence is page 1, the window of three
  pages centred on the current page and shifted to stay inside \<open>[2, totalPages - 1]\<close>,
  and the last page, with one ellipsis exactly where pages are left out.  Whenever
  something is rendered, the page numbers are strictly increasing (so no number is
  repeated), the sequence starts with page 1 and ends with the last page, and every gap
  carries a single ellipsis.  For ten pages and current page 5 the sequence is
  1, ellipsis, 4, 5, 6, ellipsis, 10; for five pages it is 1, 2, 3, 4, 5.  None of this
  needs the current page to be in range.
\<close>

theorem pagination_sequence:
  "(totalPages \<le> 1 \<longrightarrow> Pagination current totalPages = None)
   \<and> (1 < totalPages \<and> totalPages \<le> 7 \<longrightarrow>
        Pagination current totalPages = Some (map Some [1..totalPages]))
   \<and> (7 < totalPages \<longrightarrow>
        Pagination current totalPages =
          (let start = max 2 (min (current - 1) (totalPages - 3)) in
           Some ([Some 1] @ (if 2 < start then [None] else [])
                  @ [Some start, Some (start + 1), Some (start + 2)]
                  @ (if start + 2 < totalPages - 1 then [None] else [])
                  @ [Some totalPages])))
   \<and> (1 < totalPages \<longrightarrow>
        (\<exists>pages. Pagination current totalPages = Some pages
           \<and> sorted_wrt (<) (numbers pages) \<and> marked_gaps pages
           \<and> hd pages = Some 1 \<and> last pages = Some totalPages))
   \<and> Pagination 5 10 = Some [Some 1, None, Some 4, Some 5, Some 6, None, Some 10]
   \<and> Pagination current 5 = Some [Some 1, Some 2, Some 3, Some 4, Some 5]"
proof -
  have small: "1 < totalPages \<and> totalPages \<le> 7 \<longrightarrow>
      Pagination current totalPages = Some (map Some [1..totalPages])"
    by (simp add: Pagination_def generatePages_small)
  have large: "7 < totalPages \<longrightarrow>
      Pagination current totalPages =
        (let start = max 2 (min (current - 1) (totalPages - 3)) in
         Some ([Some 1] @ (if 2 < start then [None] else [])
                @ [Some start, Some (start + 1), Some (start + 2)]
                @ (if start + 2 < totalPages - 1 then [None] else [])
                @ [Some totalPages]))"
    by (simp add: Pagination_def generatePages_large Let_def upto3)
  have shape: "1 < totalPages \<longrightarrow>
      (\<exists>pages. Pagination current totalPages = Some pages
         \<and> sorted_wrt (<) (numbers pages) \<and> marked_gaps pages
         \<and> hd pages = Some 1 \<and> last pages = Some totalPages)"
    using generatePages_shape [of totalPages current] by (simp add: Pagination_def)
  have ten: "Pagination 5 10 = Some [Some 1, None, Some 4, Some 5, Some 6, None, Some 10]"
    by (simp add: Pagination_def generatePages_large Let_def upto3)
  have five: "Pagination current 5 = Some [Some 1, Some 2, Some 3, Some 4, Some 5]"
    by (simp add: Pagination_def generatePages_small upto_rec1)
  show ?thesis using small large shape ten five by (simp add: Pagination_def)
qed

theorem pagination_sequence_witness:
  "Pagination 3 1 = None
   \<and> Pagination 2 3 = Some [Some 1, Some 2, Some 3]
   \<and> Pagination 9 12 = Some [Some 1, None, Some 8, Some 9, Some 10, None, Some 12]
   \<and> sorted_wrt (<) (numbers (the (Pagination 9 12))) \<and> marked_gaps (the (Pagination 9 12))"
  using pagination_sequence [of 1 3] pagination_sequence [of 3 2]
    pagination_sequence [of 12 9]
  by (auto simp: Let_def upto_rec1)


section \<open>Properties of the search route\<close>

subsection \<open>Ordering rows\<close>

text \<open>
  For a key in a linear order the ordering of rows is the insertion sort of the library,
  and when the keys are distinct the result does not depend on the arrival order.
\<close>

lemma insert_row_insort: "insert_row (\<lambda>a b. f a \<le> f b) x xs = insort_key f x xs"
  by (induction xs) auto

lemma order_rows_sort_key:
  fixes f :: "'a \<Rightarrow> 'k::linorder"
  shows "order_rows (\<lambda>a b. f a \<le> f b) xs = sort_key f xs"
  by (induction xs) (simp_all add: insert_row_insort)

lemma insert_row_cong:
  "\<forall>y \<in> set xs. le x y = le' x y \<Longrightarrow> insert_row le x xs = insert_row le' x xs"
  by (induction xs) auto

lemma set_insert_row: "set (insert_row le x xs) = insert x (set xs)"
  by (induction xs) auto

lemma set_order_rows: "set (order_rows le xs) = set xs"
  by (induction xs) (simp_all add: set_insert_row)

lemma length_insert_row: "length (insert_row le x xs) = Suc (length xs)"
  by (induction xs) auto

lemma length_order_rows: "length (order_rows le xs) = length xs"
  by (induction xs) (simp_all add: length_insert_row)

lemma order_rows_cong:
  "\<forall>x \<in> set xs. \<forall>y \<in> set xs. le x y = le' x y \<Longrightarrow> order_rows le xs = order_rows le' xs"
proof (induction xs)
  case Nil
  show ?case by simp
next
  case (Cons x xs)
  then have "order_rows le xs = order_rows le' xs" by simp
  moreover have "insert_row le x (order_rows le' xs) = insert_row le' x (order_rows le' xs)"
    using Cons.prems by (intro insert_row_cong) (simp add: set_order_rows)
  ultimately show ?case by simp
qed

lemma sort_key_rearranged:
  fixes f :: "'a \<Rightarrow> 'k::linorder"
  assumes "set ys = set xs" and "length ys = length xs" and "distinct (map f xs)"
  shows "sort_key f ys = sort_key f xs"
proof -
  have inj: "inj_on f (set xs)" and dx: "distinct xs"
    using assms(3) by (simp_all add: distinct_map)
  have "card (set ys) = length ys" using assms(1,2) dx by (simp add: distinct_card)
  then have dy: "distinct ys" by (simp add: card_distinct)
  have dmy: "distinct (map f ys)" using dy inj assms(1) by (simp add: distinct_map)
  have "map f (sort_key f ys) = map f (sort_key f xs)"
  proof (rule sorted_distinct_set_unique)
    show "sorted (map f (sort_key f ys))" "sorted (map f (sort_key f xs))" by simp_all
    show "distinct (map f (sort_key f ys))" using dmy by (simp add: distinct_map)
    show "distinct (map f (sort_key f xs))" using assms(3) by (simp add: distinct_map)
    show "set (map f (sort_key f ys)) = set (map f (sort_key f xs))" using assms(1) by simp
  qed
  moreover have "inj_on f (set (sort_key f ys) \<union> set (sort_key f xs))"
    using inj assms(1) by simp
  ultimately show ?thesis by (rule map_inj_on)
qed



subsection \<open>The query for the search engine\<close>





subsection \<open>Sort keys\<close>

lemma sort_b_by_mode:
  "sort_b (buildElasticsearchQuery params) =
     (case sort_v params of
        date_asc \<Rightarrow> Some [(''date_start'', asc)]
      | date_desc \<Rightarrow> Some [(''date_start'', desc)]
      | az \<Rightarrow> Some [(''title'', asc)]
      | relevance \<Rightarrow> if truthy_string (query_v params) then None else Some [(''id'', desc)])"
  by (cases "sort_v params") (simp_all add: buildElasticsearchQuery_def Let_def)

lemma fallback_sort_by_mode:
  "sortBy_o (fallback_options params) =
     Some (case sort_v params of date_asc \<Rightarrow> ''date_start'' | date_desc \<Rightarrow> ''date_start''
           | az \<Rightarrow> ''title'' | relevance \<Rightarrow> ''id'')"
  "sortDir_o (fallback_options params) =
     Some (case sort_v params of date_asc \<Rightarrow> asc | az \<Rightarrow> asc | date_desc \<Rightarrow> desc
           | relevance \<Rightarrow> desc)"
  by (cases "sort_v params";
      simp add: fallback_options_def sort_name_def getSortFieldFromSearchParams_def
        getSortDirectionFromSearchParams_def)+

text \<open>
  Claim C5, as amended.  In both modes the compiled query has a single sort key and no
  secondary key.  For the engine the sort clause is \<open>date_start\<close> ascending for
  \<open>date_asc\<close>, \<open>date_start\<close> descending for \<open>date_desc\<close>, \<open>title\<close> ascending for \<open>az\<close>,
  and for \<open>relevance\<close> it is \<open>id\<close> descending without query text and absent with query
  text; \<open>id\<close> ascending is never among the keys.  Without the engine the one sort column
  and direction are \<open>date_start\<close> ascending or descending, \<open>title\<close> ascending, and \<open>id\<close>
  descending for \<open>relevance\<close>.
\<close>

theorem single_sort_key:
  "sort_b (buildElasticsearchQuery params) =
     (case sort_v params of
        date_asc \<Rightarrow> Some [(''date_start'', asc)]
      | date_desc \<Rightarrow> Some [(''date_start'', desc)]
      | az \<Rightarrow> Some [(''title'', asc)]
      | relevance \<Rightarrow> if truthy_string (query_v params) then None else Some [(''id'', desc)])
   \<and> (case sort_b (buildElasticsearchQuery params) of
         None \<Rightarrow> True
       | Some keys \<Rightarrow> length keys = 1 \<and> (''id'', asc) \<notin> set keys)
   \<and> sortBy_o (fallback_options params) =
     Some (case sort_v params of date_asc \<Rightarrow> ''date_start'' | date_desc \<Rightarrow> ''date_start''
           | az \<Rightarrow> ''title'' | relevance \<Rightarrow> ''id'')
   \<and> sortDir_o (fallback_options params) =
     Some (case sort_v params of date_asc \<Rightarrow> asc | az \<Rightarrow> asc | date_desc \<Rightarrow> desc
           | relevance \<Rightarrow> desc)"
proof -
  have "case sort_b (buildElasticsearchQuery params) of
         None \<Rightarrow> True
       | Some keys \<Rightarrow> length keys = 1 \<and> (''id'', asc) \<notin> set keys"
    by (cases "sort_v params") (simp_all add: sort_b_by_mode)
  then show ?thesis using sort_b_by_mode fallback_sort_by_mode by simp
qed

theorem single_sort_key_witness:
  "sort_b (buildElasticsearchQuery (sample_params\<lparr> sort_v := az \<rparr>)) = Some [(''title'', asc)]
   \<and> sort_b (buildElasticsearchQuery sample_params) = None
   \<and> sortBy_o (fallback_options sample_params) = Some ''id''
   \<and> sortDir_o (fallback_options sample_params) = Some desc"
  using single_sort_key [of "sample_params\<lparr> sort_v := az \<rparr>"] single_sort_key [of sample_params]
  by (simp add: sample_params_def truthy_string_def)

text \<open>
  The claim as stated fails: for \<open>date_asc\<close> the engine query sorts by \<open>date_start\<close> alone,
  and the options handed to the database name the one column \<open>date_start\<close>.
\<close>

theorem secondary_sort_key_counterexample:
  "sort_b (buildElasticsearchQuery (sample_params\<lparr> sort_v := date_asc \<rparr>))
     = Some [(''date_start'', asc)]
   \<and> fallback_options (sample_params\<lparr> sort_v := date_asc \<rparr>)
     = \<lparr> limit_o = Some 12, offset_o = Some 12, sortBy_o = Some ''date_start'',
         sortDir_o = Some asc \<rparr>"
  by (simp add: buildElasticsearchQuery_def Let_def sample_params_def fallback_options_def
      sort_name_def getSortFieldFromSearchParams_def getSortDirectionFromSearchParams_def)


subsection \<open>Without the engine\<close>





subsection \<open>Validation of the sort mode\<close>

lemma issues_of_sort_enum:
  assumes "v \<notin> set [QString ''relevance'', QString ''date_asc'', QString ''date_desc'', QString ''az'']"
  shows "\<exists>c. z_sort_enum ''sort'' v = Inl (issue c ''sort'')"
  using assms by (cases v) (auto simp: z_sort_enum_def)

lemma parse_invalid_sort:
  assumes "sort_i input = v"
    and "v \<notin> set [QString ''relevance'', QString ''date_asc'', QString ''date_desc'', QString ''az'']"
  shows "\<exists>errors. artifactSearchParamsSchema_parse input = Inl errors
           \<and> (\<exists>i \<in> set errors. path i = [''sort''])"
proof -
  obtain c where c: "z_sort_enum ''sort'' (sort_i input) = Inl (issue c ''sort'')"
    using issues_of_sort_enum [OF assms(2)] assms(1) by auto
  show ?thesis
    unfolding artifactSearchParamsSchema_parse_def Let_def c
    by (auto simp: issue_def)
qed

text \<open>
  Claim C10, as amended.  When the \<open>sort\<close> parameter is present, not the empty string,
  and not one of \<open>relevance\<close>, \<open>date_asc\<close>, \<open>date_desc\<close>, \<open>az\<close>, either handler answers
  with status 400, the message \<open>Invalid search parameters\<close> and a list of issues one of
  which has the path \<open>sort\<close>, and calls neither the search engine nor the database, with
  or without an engine.
\<close>

theorem invalid_sort_rejected:
  assumes "req_query ''sort'' = Some v" and "truthy (Some v)"
    and "v \<notin> set [QString ''relevance'', QString ''date_asc'', QString ''date_desc'', QString ''az'']"
  shows "\<exists>errors.
      search_route esClient db req_query =
        (Json 400 [(''message'', Message ''Invalid search parameters''),
                   (''errors'', Errors errors)], [])
      \<and> search_route_enriched esClient db req_query =
        (Json 400 [(''message'', Message ''Invalid search parameters''),
                   (''errors'', Errors errors)], [])
      \<and> (\<exists>i \<in> set errors. path i = [''sort''])"
proof -
  have "sort_i (search_input_of req_query) = v"
    using assms(1,2) by (simp add: search_input_of_def)
  from parse_invalid_sort [OF this assms(3)]
  obtain errors where e: "artifactSearchParamsSchema_parse (search_input_of req_query) = Inl errors"
    "\<exists>i \<in> set errors. path i = [''sort'']" by blast
  show ?thesis
    by (rule exI [of _ errors]) (simp add: search_route_def search_route_enriched_def e)
qed

theorem invalid_sort_rejected_witness:
  "search_route None gallery_db (map_of [(''sort'', QString ''newest'')])
   = (Json 400 [(''message'', Message ''Invalid search parameters''),
                (''errors'', Errors [\<lparr> code = ''invalid_enum_value'', path = [''sort''] \<rparr>])], [])"
proof -
  let ?q = "map_of [(''sort'', QString ''newest'')]"
  have h1: "?q ''sort'' = Some (QString ''newest'')" by simp
  have h2: "truthy (Some (QString ''newest''))" by (simp add: truthy_def)
  have h3: "QString ''newest''
      \<notin> set [QString ''relevance'', QString ''date_asc'', QString ''date_desc'', QString ''az'']"
    by simp
  have direct: "search_route None gallery_db ?q
      = (Json 400 [(''message'', Message ''Invalid search parameters''),
                   (''errors'', Errors [\<lparr> code = ''invalid_enum_value'', path = [''sort''] \<rparr>])], [])"
    by code_simp
  from invalid_sort_rejected [where req_query = ?q and v = "QString ''newest''"
      and esClient = None and db = gallery_db, OF h1 h2 h3]
  obtain errors where e: "search_route None gallery_db ?q =
        (Json 400 [(''message'', Message ''Invalid search parameters''),
                   (''errors'', Errors errors)], [])" by blast
  have "errors = [\<lparr> code = ''invalid_enum_value'', path = [''sort''] \<rparr>]"
    using e unfolding direct by simp
  with e show ?thesis by simp
qed

text \<open>
  The claim as stated fails for \<open>sort=\<close>: the empty string is present and is not one of
  the four modes, yet the route treats it as \<open>relevance\<close>, answers with status 200 and
  queries the database.
\<close>

theorem empty_sort_counterexample:
  "map_of [(''sort'', QString [])] ''sort'' = Some (QString [])
   \<and> QString [] \<notin> set [QString ''relevance'', QString ''date_asc'', QString ''date_desc'', QString ''az'']
   \<and> status_code (fst (search_route None gallery_db (map_of [(''sort'', QString [])]))) = Some 200
   \<and> snd (search_route None gallery_db (map_of [(''sort'', QString [])]))
      = [ListArtifacts \<lparr> limit_o = Some 12, offset_o = Some 0, sortBy_o = Some ''id'',
                         sortDir_o = Some desc \<rparr>]"
  by code_simp

subsection \<open>Images and totals of a result page\<close>

text \<open>
  In the sample gallery the three images have distinct sort orders, so they come out as
  \<open>a\<close>, \<open>b\<close>, \<open>c\<close> whatever order the executor meets them in.
\<close>

lemma gallery_images_any_arrival:
  assumes "artifact_images_table db = artifact_images_table gallery_db"
    and "set (images_arrival db 1 (artifact_images_table gallery_db))
          = set (artifact_images_table gallery_db)"
    and "length (images_arrival db 1 (artifact_images_table gallery_db)) = 3"
  shows "map i_url (getArtifactImages db 1) = [''/img/a.jpg'', ''/img/b.jpg'', ''/img/c.jpg'']"
proof -
  let ?t = "artifact_images_table gallery_db"
  let ?ys = "images_arrival db 1 ?t"
  let ?f = "\<lambda>i. the (i_sort_order i)"
  have t: "?t = [sample_image 1 1 ''/img/c.jpg'' False 3, sample_image 2 1 ''/img/a.jpg'' False 1,
          sample_image 3 1 ''/img/b.jpg'' True 2]"
    by (simp add: gallery_db_def)
  have fl: "filter (\<lambda>i. i_artifact_id i = 1) ?t = ?t"
    by (simp add: t sample_image_def)
  have some: "\<forall>x \<in> set ?ys. \<forall>y \<in> set ?ys.
      null_last (\<le>) (i_sort_order x) (i_sort_order y) = (?f x \<le> ?f y)"
    unfolding assms(2) by (simp add: t sample_image_def)
  have "getArtifactImages db 1 = order_rows (\<lambda>a b. ?f a \<le> ?f b) ?ys"
    unfolding getArtifactImages_def assms(1) fl by (rule order_rows_cong [OF some])
  also have "\<dots> = sort_key ?f ?ys" by (rule order_rows_sort_key)
  also have "\<dots> = sort_key ?f ?t"
    by (rule sort_key_rearranged) (simp_all add: assms(2,3), simp_all add: t sample_image_def)
  finally show ?thesis by (simp add: t sample_image_def)
qed


text \<open>
  Claim C2.  For an artifact with three images whose second image by sort order is
  flagged primary, the enriched row lists the three URLs in sort order, but its
  \<open>primary_image_url\<close> is the URL of the first image by sort order, not that of the image
  flagged primary.
\<close>

theorem enrichment_takes_first_image:
  "image_urls (enrich_row gallery_db (sample_artifact 1 ''amphora'' (Some (- 300))))
     = [''/img/a.jpg'', ''/img/b.jpg'', ''/img/c.jpg'']
   \<and> primary_image_url (enrich_row gallery_db (sample_artifact 1 ''amphora'' (Some (- 300))))
     = Some ''/img/a.jpg''
   \<and> map i_url (filter (\<lambda>i. i_is_primary i = Some True) (getArtifactImages gallery_db 1))
     = [''/img/b.jpg'']
   \<and> property (fst (search_route_enriched None gallery_db Map.empty)) ''artifacts''
     = Some (EnrichedRows [enrich_row gallery_db (sample_artifact 1 ''amphora'' (Some (- 300)))])"
  by code_simp

text \<open>
  For every database, the request without parameters reports a total of at most 12: the
  number of rows in the table when there are fewer, and 12 otherwise.
\<close>

lemma parse_no_parameters:
  "artifactSearchParamsSchema_parse (search_input_of Map.empty) =
     Inr \<lparr> query_v = None, cultures_v = None, materials_v = None, dateStart_v = None,
           dateEnd_v = None, tags_v = None, site_v = None, has3dModel_v = Some False,
           page_v = 1, limit_v = 12, sort_v = relevance \<rparr>"
  by (simp add: artifactSearchParamsSchema_parse_def search_input_of_def parsed_number_def
      truthy_def z_string_optional_def z_facet_optional_def z_number_optional_def
      z_number_default_def z_sort_enum_def)

lemma default_request_total:
  assumes "\<And>q rows. length (artifacts_arrival db q rows) = length rows"
  shows "reported_total (fst (search_route None db Map.empty))
           = Some (min 12 (int (length (artifacts_table db))))"
    and "reported_total (fst (search_route_enriched None db Map.empty))
           = Some (min 12 (int (length (artifacts_table db))))"
proof -
  let ?sp = "\<lparr> query_v = None, cultures_v = None, materials_v = None, dateStart_v = None,
           dateEnd_v = None, tags_v = None, site_v = None, has3dModel_v = Some False,
           page_v = 1, limit_v = 12, sort_v = relevance \<rparr>"
  obtain rows where l: "listArtifacts db (fallback_options ?sp) = Inr rows"
    and n: "length rows = min 12 (length (artifacts_table db))"
    by (simp add: listArtifacts_def fallback_options_def run_select_def artifacts_column_def
        sort_name_def getSortFieldFromSearchParams_def getSortDirectionFromSearchParams_def
        out_of_bigint_def length_order_rows assms)
  show "reported_total (fst (search_route None db Map.empty))
           = Some (min 12 (int (length (artifacts_table db))))"
    using n
    by (simp add: search_route_def parse_no_parameters l reported_total_def property_def
        page_info_def)
  show "reported_total (fst (search_route_enriched None db Map.empty))
           = Some (min 12 (int (length (artifacts_table db))))"
    using n
    by (simp add: search_route_enriched_def parse_no_parameters l reported_total_def
        property_def page_info_def)
qed
text \<open>
  Claim C3.  With thirteen artifacts in the table and no engine, the default request
  (page 1, limit 12) reports a total of 12, the number of rows on the returned page, in
  both handlers.
\<close>

theorem fallback_total_is_page_length:
  "length (artifacts_table thirteen_db) = 13
   \<and> reported_total (fst (search_route None thirteen_db Map.empty)) = Some 12
   \<and> reported_total (fst (search_route_enriched None thirteen_db Map.empty)) = Some 12"
  by code_simp

end
